theory Spec2Isabelle
  imports Complex_Main
begin

section \<open>Constants of lite\_led\_cfg.h and lite\_led.h\<close>

text \<open>
  The board configuration fixes the poll period at 100 ms and the identifier enumeration
  \<open>LED_GREEN = 0, LED_BLUE, LED_RED, LED_WHITE, LED_MAX, LED_INVALID\<close>, so that
  \<open>LED_MAX = 4\<close> and \<open>LED_NUM = LED_MAX\<close>. The lookup table is compiled in
  (\<open>LED_BREATH_LUT_ENABLE = 1\<close>).
\<close>

definition LED_POLL_PERIOD_MS :: nat where "LED_POLL_PERIOD_MS = 100"
definition LED_MAX :: nat where "LED_MAX = 4"
definition LED_NUM :: nat where "LED_NUM = LED_MAX"
definition LED_MAX_BRIGHTNESS :: nat where "LED_MAX_BRIGHTNESS = 100"
definition LED_MIN_BRIGHTNESS :: nat where "LED_MIN_BRIGHTNESS = 0"
definition LED_BLOCK_FOREVER :: nat where "LED_BLOCK_FOREVER = 4294967295"

definition LED_ERROR_NONE :: int where "LED_ERROR_NONE = 0"
definition LED_ERROR_PARA_INVALID :: int where "LED_ERROR_PARA_INVALID = - 1"
definition LED_ERROR_MODE_INVALID :: int where "LED_ERROR_MODE_INVALID = - 2"
definition LED_ERROR_ALTERNATE_ID :: int where "LED_ERROR_ALTERNATE_ID = - 3"

text \<open>
  \<open>led_mode_e\<close> is a C enumeration; an object of that type can hold any integer the
  caller stores in it, and \<open>lite_led_write\<close> has a \<open>default\<close> branch for such values.
  The mode is therefore kept as the enumerator's number.
\<close>

definition LED_MODE_OFF :: nat where "LED_MODE_OFF = 0"
definition LED_MODE_ON :: nat where "LED_MODE_ON = 1"
definition LED_MODE_BLINK :: nat where "LED_MODE_BLINK = 2"
definition LED_MODE_BREATH :: nat where "LED_MODE_BREATH = 3"
definition LED_MODE_FADE_IN :: nat where "LED_MODE_FADE_IN = 4"
definition LED_MODE_FADE_OUT :: nat where "LED_MODE_FADE_OUT = 5"
definition LED_MODE_ALTERNATE :: nat where "LED_MODE_ALTERNATE = 6"

datatype led_state_e = LED_STATE_OFF | LED_STATE_ON

text \<open>The C expression \<open>!(state)\<close> on the two enumerators.\<close>

fun lnot :: "led_state_e \<Rightarrow> led_state_e" where
  "lnot LED_STATE_OFF = LED_STATE_ON"
| "lnot LED_STATE_ON = LED_STATE_OFF"

section \<open>Float values\<close>

text \<open>
  \<open>phase\<close> and \<open>phase_step\<close> are C floats. A finite float is modelled by the real
  number it stands for and finite arithmetic is exact (rounding is left out); the IEEE 754
  infinities and NaN are values of their own, because \<open>lite_led_write\<close> divides by
  \<open>(float)cfg->fade_ms\<close>, which may be zero.
\<close>

datatype cfloat = Fin real | PInf | MInf | NaN

fun fneg :: "cfloat \<Rightarrow> cfloat" where
  "fneg (Fin a) = Fin (- a)"
| "fneg PInf = MInf"
| "fneg MInf = PInf"
| "fneg NaN = NaN"

fun fadd :: "cfloat \<Rightarrow> cfloat \<Rightarrow> cfloat" where
  "fadd (Fin a) (Fin b) = Fin (a + b)"
| "fadd NaN _ = NaN"
| "fadd _ NaN = NaN"
| "fadd PInf MInf = NaN"
| "fadd MInf PInf = NaN"
| "fadd PInf _ = PInf"
| "fadd _ PInf = PInf"
| "fadd MInf _ = MInf"
| "fadd _ MInf = MInf"

definition fsub :: "cfloat \<Rightarrow> cfloat \<Rightarrow> cfloat" where
  "fsub a b = fadd a (fneg b)"

text \<open>Division by a finite divisor that is not negative (a zero divisor is \<open>+0.0\<close>).\<close>

fun fdiv :: "cfloat \<Rightarrow> real \<Rightarrow> cfloat" where
  "fdiv (Fin a) b =
     (if b = 0 then (if 0 < a then PInf else if a < 0 then MInf else NaN)
      else Fin (a / b))"
| "fdiv PInf b = (if b < 0 then MInf else PInf)"
| "fdiv MInf b = (if b < 0 then PInf else MInf)"
| "fdiv NaN b = NaN"

fun fle :: "cfloat \<Rightarrow> cfloat \<Rightarrow> bool" where
  "fle (Fin a) (Fin b) = (a \<le> b)"
| "fle NaN _ = False"
| "fle _ NaN = False"
| "fle MInf _ = True"
| "fle _ PInf = True"
| "fle _ _ = False"

definition fge :: "cfloat \<Rightarrow> cfloat \<Rightarrow> bool" where
  "fge a b = fle b a"

text \<open>
  The conversion \<open>(size_t)x\<close> truncates toward zero when the truncated value fits;
  otherwise ISO C leaves the behaviour undefined. The model takes what the platform
  yields in that case as a parameter \<open>ub\<close>, so that every statement below holds for each
  possible result. \<open>size_t\<close> has at least the 32 bits that \<open>LED_BLOCK_FOREVER\<close> needs.
\<close>

definition float_to_size_t :: "(cfloat \<Rightarrow> nat) \<Rightarrow> cfloat \<Rightarrow> nat" where
  "float_to_size_t ub x =
     (case x of
        Fin r \<Rightarrow> if - 1 < r \<and> r < 4294967296 then nat \<lfloor>r\<rfloor> else ub x
      | _ \<Rightarrow> ub x)"

section \<open>Data model (lite\_led.h)\<close>

text \<open>
  A function pointer is an address; \<open>NULL\<close> is \<open>None\<close>. The caller's \<open>led_cfg_t\<close>
  has its fields prefixed where the name is used again in \<open>led_inner_cfg_t\<close>; its
  millisecond fields are \<open>uint32_t\<close> and are only divided by the poll period. Tick
  counters are \<open>size_t\<close>: they are only assigned a quotient, the sentinel or zero and
  only decremented when non-zero, so they never wrap and are natural numbers here.
  \<open>percent\<close> is \<open>uint8_t\<close> and is only assigned table entries and the two
  brightness constants. Identifiers are the numbers of the \<open>led_id_e\<close> enumerators;
  \<open>led_id\<close> is the field \<open>id\<close> of \<open>led_dev_t\<close>.
\<close>

type_synonym fnptr = nat

record led_cfg_t =
  cfg_mode :: nat
  cfg_alter_id :: nat
  on_ms :: nat
  off_ms :: nat
  fade_ms :: nat
  alternate_ms :: nat
  duration_ms :: nat

record led_inner_cfg_t =
  mode :: nat
  alter_id :: nat
  on_tick :: nat
  off_tick :: nat
  fade_tick :: nat
  alternate_tick :: nat
  duration_tick :: nat

record led_status_t =
  percent :: nat
  state :: led_state_e
  next_tick :: nat
  remain_tick :: nat
  phase :: cfloat
  phase_step :: cfloat
  dur_timeout :: bool

record led_dev_t =
  led_id :: nat
  cfg :: led_inner_cfg_t
  stat :: led_status_t
  set_percent_cb :: "fnptr option"
  dur_timeout_cb :: "fnptr option"

text \<open>What \<open>memset(..., 0, ...)\<close> leaves in each structure.\<close>

definition zero_cfg :: led_inner_cfg_t where
  "zero_cfg = \<lparr>mode = 0, alter_id = 0, on_tick = 0, off_tick = 0, fade_tick = 0,
     alternate_tick = 0, duration_tick = 0\<rparr>"

definition zero_stat :: led_status_t where
  "zero_stat = \<lparr>percent = 0, state = LED_STATE_OFF, next_tick = 0, remain_tick = 0,
     phase = Fin 0, phase_step = Fin 0, dur_timeout = False\<rparr>"

definition zero_dev :: led_dev_t where
  "zero_dev = \<lparr>led_id = 0, cfg = zero_cfg, stat = zero_stat, set_percent_cb = None,
     dur_timeout_cb = None\<rparr>"

text \<open>The registry \<open>g_led_list[LED_NUM]\<close>, zero-initialised at program start.\<close>

type_synonym registry = "led_dev_t list"

definition g_led_list_init :: registry where
  "g_led_list_init = replicate LED_NUM zero_dev"

section \<open>The brightness curve\<close>

text \<open>
  \<open>g_led_sin_table\<close> has \<open>LED_TABLE_SIZE + 1 = 129\<close> elements. Its initialiser lists
  128 values; the last element, at index 128, is zero-initialised.
\<close>

definition LED_TABLE_SIZE :: nat where "LED_TABLE_SIZE = 128"

definition g_led_sin_table :: "nat list" where
  "g_led_sin_table =
   [  0,  1,  2,  3,  4,  5,  7,  8, 10, 11, 13, 15, 16, 18, 20, 22,
     24, 26, 28, 30, 32, 34, 37, 39, 41, 44, 46, 49, 51, 54, 56, 59,
     61, 64, 67, 69, 72, 75, 77, 80, 83, 86, 88, 91, 94, 97,100,100,
    100,100,100,100,100,100,100,100,100,100,100,100,100,100,100,100,
    100,100,100,100,100,100,100,100,100,100,100,100,100,100,100,100,
     97, 94, 91, 88, 86, 83, 80, 77, 75, 72, 69, 67, 64, 61, 59, 56,
     54, 51, 49, 46, 44, 41, 39, 37, 34, 32, 30, 28, 26, 24, 22, 20,
     18, 16, 15, 13, 11, 10,  8,  7,  5,  4,  3,  2,  1,  0,  0,  0,
      0]"

definition lite_led_get_percent_from_phase :: "(cfloat \<Rightarrow> nat) \<Rightarrow> cfloat \<Rightarrow> nat" where
  "lite_led_get_percent_from_phase ub ph =
     (let step = 2 * pi / real LED_TABLE_SIZE;
          index = float_to_size_t ub (fdiv ph step);
          index = (if index > LED_TABLE_SIZE then LED_TABLE_SIZE else index)
      in g_led_sin_table ! index)"

text \<open>
  The branch compiled when \<open>LED_BREATH_LUT_ENABLE\<close> is 0:
  \<open>(uint8_t)((1 - cos(phase)) / 2.0 * LED_MAX_BRIGHTNESS)\<close>, on a finite phase.
\<close>

definition percent_from_cos :: "real \<Rightarrow> nat" where
  "percent_from_cos ph = nat \<lfloor>(1 - cos ph) / 2 * real LED_MAX_BRIGHTNESS\<rfloor>"

section \<open>Registry operations (lite\_led.c)\<close>

definition lite_led_init :: "nat \<Rightarrow> fnptr option \<Rightarrow> registry \<Rightarrow> int \<times> registry" where
  "lite_led_init i cb g =
     (if i \<ge> LED_NUM \<or> cb = None then (- 1, g)
      else (LED_ERROR_NONE, g[i := zero_dev\<lparr>led_id := i, set_percent_cb := cb\<rparr>]))"

text \<open>
  Modelled from the spec: \<open>lite_led_register_duration_timeout_cb\<close> is declared in
  lite\_led.h and called by the example, but lite\_led.c does not define it. The spec's
  RegisterExpiryCallback attaches the notification to the record and fails with
  InvalidArgument on a bad identifier.
\<close>

definition lite_led_register_duration_timeout_cb ::
    "nat \<Rightarrow> fnptr option \<Rightarrow> registry \<Rightarrow> int \<times> registry" where
  "lite_led_register_duration_timeout_cb i cb g =
     (if i \<ge> LED_NUM then (LED_ERROR_PARA_INVALID, g)
      else (LED_ERROR_NONE, g[i := (g ! i)\<lparr>dur_timeout_cb := cb\<rparr>]))"

text \<open>
  \<open>lite_led_write\<close>: the tick conversion and the status reset happen before the
  \<open>switch\<close> that validates the mode, on the record in the registry.
\<close>

definition write_convert :: "led_cfg_t \<Rightarrow> led_dev_t \<Rightarrow> led_dev_t" where
  "write_convert c led =
     (let led = led\<lparr>cfg := \<lparr>mode = cfg_mode c, alter_id = cfg_alter_id c,
                   on_tick = on_ms c div LED_POLL_PERIOD_MS,
                   off_tick = off_ms c div LED_POLL_PERIOD_MS,
                   fade_tick = fade_ms c div LED_POLL_PERIOD_MS,
                   alternate_tick = alternate_ms c div LED_POLL_PERIOD_MS,
                   duration_tick = duration_ms c div LED_POLL_PERIOD_MS\<rparr>\<rparr>
      in led\<lparr>stat := zero_stat\<lparr>remain_tick := duration_tick (cfg led)\<rparr>\<rparr>)"

definition write_phase_step :: "led_cfg_t \<Rightarrow> cfloat" where
  "write_phase_step c =
     (let ps = fdiv (Fin (pi * real LED_POLL_PERIOD_MS)) (real (fade_ms c))
      in if fle ps (Fin 0) then Fin (pi / real LED_MAX_BRIGHTNESS) else ps)"

definition write_switch :: "nat \<Rightarrow> led_cfg_t \<Rightarrow> led_dev_t \<Rightarrow> int \<times> led_dev_t" where
  "write_switch i c led =
     (if cfg_mode c = LED_MODE_ON then (LED_ERROR_NONE, led)
      else if cfg_mode c = LED_MODE_OFF then (LED_ERROR_NONE, led)
      else if cfg_mode c = LED_MODE_BLINK then (LED_ERROR_NONE, led)
      else if cfg_mode c = LED_MODE_BREATH \<or> cfg_mode c = LED_MODE_FADE_IN
              \<or> cfg_mode c = LED_MODE_FADE_OUT then
        (let ps = write_phase_step c
         in if cfg_mode c = LED_MODE_FADE_OUT then
              (LED_ERROR_NONE,
               led\<lparr>stat := (stat led)\<lparr>percent := LED_MAX_BRIGHTNESS, phase := Fin pi,
                      phase_step := fneg ps\<rparr>\<rparr>)
            else
              (LED_ERROR_NONE,
               led\<lparr>stat := (stat led)\<lparr>percent := LED_MIN_BRIGHTNESS, phase := Fin 0,
                      phase_step := ps\<rparr>\<rparr>))
      else if cfg_mode c = LED_MODE_ALTERNATE then
        (if i = cfg_alter_id c then (LED_ERROR_ALTERNATE_ID, led)
         else (LED_ERROR_NONE, led))
      else (LED_ERROR_MODE_INVALID, led))"

definition lite_led_write :: "nat \<Rightarrow> led_cfg_t option \<Rightarrow> registry \<Rightarrow> int \<times> registry" where
  "lite_led_write i cfgp g =
     (case cfgp of
        None \<Rightarrow> (LED_ERROR_PARA_INVALID, g)
      | Some c \<Rightarrow>
          if i \<ge> LED_MAX then (LED_ERROR_PARA_INVALID, g)
          else (let (r, led) = write_switch i c (write_convert c (g ! i))
                in (r, g[i := led])))"

text \<open>
  \<open>lite_led_read\<close>: the output location is \<open>None\<close> for a null pointer and holds the
  caller's previous contents otherwise.
\<close>

definition lite_led_read ::
    "nat \<Rightarrow> led_status_t option \<Rightarrow> registry \<Rightarrow> int \<times> led_status_t option \<times> registry" where
  "lite_led_read i status g =
     (if i \<ge> LED_NUM \<or> status = None then (LED_ERROR_PARA_INVALID, status, g)
      else (LED_ERROR_NONE, Some (stat (g ! i)), g))"

section \<open>The tick handler\<close>

text \<open>
  A call of \<open>g_led_list[i].set_percent_cb(p)\<close> is recorded as \<open>Set_percent i p\<close>; a
  call of the expiry callback of record \<open>i\<close> would be \<open>Dur_timeout i\<close>.
\<close>

datatype event = Set_percent nat nat | Dur_timeout nat

text \<open>
  The \<open>switch\<close> on \<open>led->cfg.mode\<close>. \<open>led\<close> is the record as the loop body has
  updated it so far; it lives in the registry at index \<open>i\<close>, which is what the read of
  the peer in the ALTERNATE branch sees.
\<close>

definition mode_handle :: "(cfloat \<Rightarrow> nat) \<Rightarrow> registry \<Rightarrow> nat \<Rightarrow> led_dev_t \<Rightarrow> led_dev_t" where
  "mode_handle ub g i led =
     (let m = mode (cfg led); s = stat led in
      if m = LED_MODE_OFF then
        led\<lparr>stat := s\<lparr>state := LED_STATE_OFF, percent := LED_MIN_BRIGHTNESS,
                 next_tick := LED_BLOCK_FOREVER\<rparr>\<rparr>
      else if m = LED_MODE_ON then
        led\<lparr>stat := s\<lparr>state := LED_STATE_ON, percent := LED_MAX_BRIGHTNESS,
                 next_tick := LED_BLOCK_FOREVER\<rparr>\<rparr>
      else if m = LED_MODE_BLINK then
        (if state s = LED_STATE_OFF then
           led\<lparr>stat := s\<lparr>next_tick := on_tick (cfg led), percent := LED_MAX_BRIGHTNESS,
                    state := lnot (state s)\<rparr>\<rparr>
         else
           led\<lparr>stat := s\<lparr>next_tick := off_tick (cfg led), percent := LED_MIN_BRIGHTNESS,
                    state := lnot (state s)\<rparr>\<rparr>)
      else if m = LED_MODE_FADE_IN \<or> m = LED_MODE_FADE_OUT \<or> m = LED_MODE_BREATH then
        (let ph = fadd (phase s) (phase_step s);
             s = (if m = LED_MODE_BREATH then
                    (if fge ph (Fin (2 * pi)) then s\<lparr>phase := fsub ph (Fin (2 * pi))\<rparr>
                     else s\<lparr>phase := ph\<rparr>)
                  else if m = LED_MODE_FADE_IN then
                    (if fge ph (Fin pi) then
                       s\<lparr>phase := Fin pi, next_tick := LED_BLOCK_FOREVER\<rparr>
                     else s\<lparr>phase := ph\<rparr>)
                  else
                    (if fle ph (Fin 0) then
                       s\<lparr>phase := Fin 0, next_tick := LED_BLOCK_FOREVER\<rparr>
                     else s\<lparr>phase := ph\<rparr>));
             p = lite_led_get_percent_from_phase ub (phase s);
             p = (if p \<ge> LED_MAX_BRIGHTNESS then LED_MAX_BRIGHTNESS else p)
         in led\<lparr>stat := s\<lparr>percent := p\<rparr>\<rparr>)
      else if m = LED_MODE_ALTERNATE then
        (if alter_id (cfg led) \<ge> LED_NUM then led
         else
           (let s = s\<lparr>next_tick := alternate_tick (cfg led)\<rparr>;
                st = (if led_id led < alter_id (cfg led) then lnot (state s)
                      else lnot (state (stat (g[i := led\<lparr>stat := s\<rparr>] ! alter_id (cfg led)))))
            in led\<lparr>stat := s\<lparr>state := st,
                     percent := (if st = LED_STATE_ON then LED_MAX_BRIGHTNESS
                                 else LED_MIN_BRIGHTNESS)\<rparr>\<rparr>))
      else led)"

text \<open>
  One iteration of the loop body on record \<open>i\<close>: the new contents of the record and the
  argument of the brightness callback if the iteration reaches the call. Each
  \<open>continue\<close> is a result without a call.
\<close>

definition poll_body :: "(cfloat \<Rightarrow> nat) \<Rightarrow> registry \<Rightarrow> nat \<Rightarrow> led_dev_t \<times> nat option" where
  "poll_body ub g i =
     (let led = g ! i in
      if set_percent_cb led = None then (led, None)
      else
        (let expiring = (remain_tick (stat led) \<noteq> 0 \<and> remain_tick (stat led) - 1 = 0);
             led = (if remain_tick (stat led) \<noteq> 0
                    then led\<lparr>stat := (stat led)\<lparr>remain_tick := remain_tick (stat led) - 1\<rparr>\<rparr>
                    else led)
         in if expiring then
              (led\<lparr>cfg := (cfg led)\<lparr>mode := LED_MODE_OFF\<rparr>,
                   stat := (stat led)\<lparr>next_tick := 0\<rparr>\<rparr>, None)
            else if next_tick (stat led) = LED_BLOCK_FOREVER then (led, None)
            else
              (let waiting = (next_tick (stat led) \<noteq> 0 \<and> next_tick (stat led) - 1 \<noteq> 0);
                   led = (if next_tick (stat led) \<noteq> 0
                          then led\<lparr>stat := (stat led)\<lparr>next_tick := next_tick (stat led) - 1\<rparr>\<rparr>
                          else led)
               in if waiting then (led, None)
                  else (let led = mode_handle ub g i led
                        in (led, Some (percent (stat led)))))))"

definition poll_led ::
    "(cfloat \<Rightarrow> nat) \<Rightarrow> nat \<Rightarrow> registry \<times> event list \<Rightarrow> registry \<times> event list" where
  "poll_led ub i = (\<lambda>(g, tr).
     (let (led, call) = poll_body ub g i
      in (g[i := led],
          tr @ (case call of None \<Rightarrow> [] | Some p \<Rightarrow> [Set_percent i p]))))"

text \<open>
  \<open>lite_led_poll_handle\<close>: the loop over \<open>i = 0, ..., LED_NUM - 1\<close>. The result is the
  registry after the tick and the callbacks invoked during it, in order.
\<close>

definition lite_led_poll_handle :: "(cfloat \<Rightarrow> nat) \<Rightarrow> registry \<Rightarrow> registry \<times> event list" where
  "lite_led_poll_handle ub g = fold (poll_led ub) [0..<LED_NUM] (g, [])"

text \<open>The registry after \<open>n\<close> ticks, and the callbacks invoked during tick \<open>n\<close>.\<close>

fun ticks :: "(cfloat \<Rightarrow> nat) \<Rightarrow> nat \<Rightarrow> registry \<Rightarrow> registry" where
  "ticks ub 0 g = g"
| "ticks ub (Suc n) g = fst (lite_led_poll_handle ub (ticks ub n g))"

definition calls_at :: "(cfloat \<Rightarrow> nat) \<Rightarrow> nat \<Rightarrow> registry \<Rightarrow> event list" where
  "calls_at ub n g = snd (lite_led_poll_handle ub (ticks ub (n - 1) g))"

text \<open>
  The brightness callbacks of record \<open>i\<close> in a list of calls (their arguments, in
  order), and the expiry callbacks of record \<open>i\<close> in it.
\<close>

definition percent_calls :: "nat \<Rightarrow> event list \<Rightarrow> nat list" where
  "percent_calls i tr =
     concat (map (\<lambda>e. case e of Set_percent j p \<Rightarrow> (if j = i then [p] else [])
                               | Dur_timeout j \<Rightarrow> []) tr)"

definition expiry_calls :: "nat \<Rightarrow> event list \<Rightarrow> nat" where
  "expiry_calls i tr = length (filter (\<lambda>e. e = Dur_timeout i) tr)"

text \<open>The registry as the loop has left it when it reaches index \<open>i\<close>.\<close>

definition before :: "(cfloat \<Rightarrow> nat) \<Rightarrow> nat \<Rightarrow> registry \<Rightarrow> registry" where
  "before ub i g = fst (fold (poll_led ub) [0..<i] (g, []))"

text \<open>
  The ALTERNATE branch reads another slot only for a record whose peer is in range and
  whose own identifier is not the lower one. For every other record the loop body is a
  function of the record alone: \<open>led_tick\<close>, and \<open>led_ticks\<close> for \<open>n\<close> ticks.
\<close>

definition reads_peer :: "led_dev_t \<Rightarrow> bool" where
  "reads_peer led \<longleftrightarrow> mode (cfg led) = LED_MODE_ALTERNATE \<and> alter_id (cfg led) < LED_NUM
      \<and> \<not> led_id led < alter_id (cfg led)"

definition led_tick :: "(cfloat \<Rightarrow> nat) \<Rightarrow> led_dev_t \<Rightarrow> led_dev_t \<times> nat option" where
  "led_tick ub led = poll_body ub [led] 0"

fun led_ticks :: "(cfloat \<Rightarrow> nat) \<Rightarrow> nat \<Rightarrow> led_dev_t \<Rightarrow> led_dev_t" where
  "led_ticks ub 0 led = led"
| "led_ticks ub (Suc n) led = fst (led_tick ub (led_ticks ub n led))"

section \<open>Configurations used as concrete inputs\<close>

text \<open>The example's blink configuration, with an indefinite lifetime.\<close>

definition blink_cfg :: led_cfg_t where
  "blink_cfg = \<lparr>cfg_mode = LED_MODE_BLINK, cfg_alter_id = 0, on_ms = 200, off_ms = 800,
     fade_ms = 0, alternate_ms = 0, duration_ms = 0\<rparr>"

text \<open>A conversion that yields 0 wherever ISO C leaves the result open.\<close>

definition ub0 :: "cfloat \<Rightarrow> nat" where
  "ub0 x = 0"

text \<open>The registry at program start with slot 1 initialised.\<close>

definition slot1 :: registry where
  "slot1 = snd (lite_led_init 1 (Some 1) g_led_list_init)"

text \<open>Slot 1 given the blink configuration.\<close>

definition blink_demo :: registry where
  "blink_demo = snd (lite_led_write 1 (Some blink_cfg) slot1)"

text \<open>Slot 1 given the same blink configuration with a lifetime of 500 ms.\<close>

definition blink_500_cfg :: led_cfg_t where
  "blink_500_cfg = blink_cfg\<lparr>duration_ms := 500\<rparr>"

definition blink_500_demo :: registry where
  "blink_500_demo = snd (lite_led_write 1 (Some blink_500_cfg) slot1)"

text \<open>Slot 1 switched on with a lifetime of 50 ms, half a poll period.\<close>

definition short_cfg :: led_cfg_t where
  "short_cfg = \<lparr>cfg_mode = LED_MODE_ON, cfg_alter_id = 0, on_ms = 0, off_ms = 0,
     fade_ms = 0, alternate_ms = 0, duration_ms = 50\<rparr>"

definition short_demo :: registry where
  "short_demo = snd (lite_led_write 1 (Some short_cfg) slot1)"

text \<open>
  Slot 1 with an expiry callback registered, then switched on with a lifetime of 500 ms.
\<close>

definition expiry_cfg :: led_cfg_t where
  "expiry_cfg = \<lparr>cfg_mode = LED_MODE_ON, cfg_alter_id = 0, on_ms = 0, off_ms = 0,
     fade_ms = 0, alternate_ms = 0, duration_ms = 500\<rparr>"

definition slot1_cb :: registry where
  "slot1_cb = snd (lite_led_register_duration_timeout_cb 1 (Some 2) slot1)"

definition expiry_demo :: registry where
  "expiry_demo = snd (lite_led_write 1 (Some expiry_cfg) slot1_cb)"

section \<open>Reachable registries\<close>

text \<open>
  The registries that calls of \<open>lite_led_init\<close>, \<open>lite_led_write\<close> and the tick
  handler, in any order and with any arguments, produce from the zero-initialised one;
  and the bound on the brightness of every record.
\<close>

inductive reachable :: "(cfloat \<Rightarrow> nat) \<Rightarrow> registry \<Rightarrow> bool" for ub where
  at_start: "reachable ub g_led_list_init"
| after_init: "reachable ub g \<Longrightarrow> reachable ub (snd (lite_led_init i cb g))"
| after_write: "reachable ub g \<Longrightarrow> reachable ub (snd (lite_led_write i c g))"
| after_poll: "reachable ub g \<Longrightarrow> reachable ub (fst (lite_led_poll_handle ub g))"

definition percent_ok :: "registry \<Rightarrow> bool" where
  "percent_ok g \<longleftrightarrow> length g = LED_NUM \<and>
     list_all (\<lambda>led. LED_MIN_BRIGHTNESS \<le> percent (stat led) \<and>
                     percent (stat led) \<le> LED_MAX_BRIGHTNESS) g"

text \<open>
  Two configurations that \<open>lite_led_write\<close> rejects on slot 1: a mode outside the
  enumeration, and ALTERNATE with the slot itself as peer.
\<close>

definition bad_mode_cfg :: led_cfg_t where
  "bad_mode_cfg = \<lparr>cfg_mode = 7, cfg_alter_id = 0, on_ms = 0, off_ms = 0,
     fade_ms = 0, alternate_ms = 0, duration_ms = 0\<rparr>"

definition self_alt_cfg :: led_cfg_t where
  "self_alt_cfg = \<lparr>cfg_mode = LED_MODE_ALTERNATE, cfg_alter_id = 1, on_ms = 0, off_ms = 0,
     fade_ms = 0, alternate_ms = 500, duration_ms = 0\<rparr>"

text \<open>
  Slot 1 configured to breathe with a fade of 50 ms, half a poll period, and with a fade
  of 0 ms.
\<close>

definition stall_cfg :: led_cfg_t where
  "stall_cfg = \<lparr>cfg_mode = LED_MODE_BREATH, cfg_alter_id = 0, on_ms = 0, off_ms = 0,
     fade_ms = 50, alternate_ms = 0, duration_ms = 0\<rparr>"

definition stall_demo :: registry where
  "stall_demo = snd (lite_led_write 1 (Some stall_cfg) slot1)"

definition div0_demo :: registry where
  "div0_demo = snd (lite_led_write 1 (Some (stall_cfg\<lparr>fade_ms := 0\<rparr>)) slot1)"

text \<open>
  The table entry that a breath with a phase step of \<open>pi / 10\<close> reaches after \<open>n\<close>
  ticks: the phase is \<open>(n mod 20) * pi / 10\<close>, the index its quotient by \<open>2 * pi / 128\<close>.
\<close>

definition breath_curve :: "nat \<Rightarrow> nat" where
  "breath_curve n = g_led_sin_table ! (n mod 20 * 32 div 5)"

text \<open>Slot 1 configured to breathe with a fade of 1000 ms and an indefinite lifetime.\<close>

definition breath_cfg :: led_cfg_t where
  "breath_cfg = \<lparr>cfg_mode = LED_MODE_BREATH, cfg_alter_id = 0, on_ms = 0, off_ms = 0,
     fade_ms = 1000, alternate_ms = 0, duration_ms = 0\<rparr>"

definition breath_demo :: registry where
  "breath_demo = snd (lite_led_write 1 (Some breath_cfg) slot1)"

text \<open>
  What a pair of ALTERNATE records \<open>A < B\<close> with each other as peer keeps from tick to
  tick when both are configured together with the same period and lifetime: equal
  countdowns, the same mode (ALTERNATE, or OFF once the lifetime has ended), and not both
  states on.
\<close>

definition pair_inv :: "nat \<Rightarrow> nat \<Rightarrow> led_dev_t \<Rightarrow> led_dev_t \<Rightarrow> bool" where
  "pair_inv A B a b \<longleftrightarrow>
     set_percent_cb a \<noteq> None \<and> set_percent_cb b \<noteq> None \<and>
     led_id a = A \<and> led_id b = B \<and> alter_id (cfg a) = B \<and> alter_id (cfg b) = A \<and>
     alternate_tick (cfg a) = alternate_tick (cfg b) \<and>
     remain_tick (stat a) = remain_tick (stat b) \<and> next_tick (stat a) = next_tick (stat b) \<and>
     mode (cfg a) = mode (cfg b) \<and>
     (mode (cfg a) = LED_MODE_ALTERNATE \<or> mode (cfg a) = LED_MODE_OFF) \<and>
     \<not> (state (stat a) = LED_STATE_ON \<and> state (stat b) = LED_STATE_ON)"

text \<open>
  Slots 0 and 1 initialised, and configured with each other as ALTERNATE peer with a
  period of 100 ms: both with an indefinite lifetime, and slot 1 with a lifetime of
  300 ms.
\<close>

definition slot01 :: registry where
  "slot01 = snd (lite_led_init 0 (Some 1) slot1)"

definition alt_cfg :: "nat \<Rightarrow> nat \<Rightarrow> led_cfg_t" where
  "alt_cfg peer life = \<lparr>cfg_mode = LED_MODE_ALTERNATE, cfg_alter_id = peer, on_ms = 0,
     off_ms = 0, fade_ms = 0, alternate_ms = 100, duration_ms = life\<rparr>"

definition even_demo :: registry where
  "even_demo = snd (lite_led_write 1 (Some (alt_cfg 0 0))
                 (snd (lite_led_write 0 (Some (alt_cfg 1 0)) slot01)))"

definition uneven_demo :: registry where
  "uneven_demo = snd (lite_led_write 1 (Some (alt_cfg 0 300))
                   (snd (lite_led_write 0 (Some (alt_cfg 1 0)) slot01)))"

lemmas led_consts = LED_POLL_PERIOD_MS_def LED_MAX_def LED_NUM_def LED_MAX_BRIGHTNESS_def
  LED_MIN_BRIGHTNESS_def LED_BLOCK_FOREVER_def LED_ERROR_NONE_def LED_ERROR_PARA_INVALID_def
  LED_ERROR_MODE_INVALID_def LED_ERROR_ALTERNATE_ID_def LED_MODE_OFF_def LED_MODE_ON_def
  LED_MODE_BLINK_def LED_MODE_BREATH_def LED_MODE_FADE_IN_def LED_MODE_FADE_OUT_def
  LED_MODE_ALTERNATE_def LED_TABLE_SIZE_def

section \<open>The loop, record by record\<close>

lemma length_poll_led: "length (fst (poll_led ub i s)) = length (fst s)"
  by (cases s) (simp add: poll_led_def split: prod.splits)

lemma poll_led_other: "j \<noteq> i \<Longrightarrow> fst (poll_led ub i s) ! j = fst s ! j"
  by (cases s) (simp add: poll_led_def split: prod.splits)

lemma poll_led_same:
  "i < length (fst s) \<Longrightarrow> fst (poll_led ub i s) ! i = fst (poll_body ub (fst s) i)"
  by (cases s) (simp add: poll_led_def split: prod.splits)

lemma length_fold_poll: "length (fst (fold (poll_led ub) js s)) = length (fst s)"
  by (induction js arbitrary: s) (simp_all add: length_poll_led)

lemma fold_poll_other:
  "j \<notin> set js \<Longrightarrow> fst (fold (poll_led ub) js s) ! j = fst s ! j"
  by (induction js arbitrary: s) (simp_all add: poll_led_other)

lemma poll_nth:
  assumes "i < LED_NUM" "length g = LED_NUM"
  shows "fst (lite_led_poll_handle ub g) ! i = fst (poll_body ub (before ub i g) i)"
proof -
  have split: "[0..<LED_NUM] = [0..<i] @ i # [Suc i..<LED_NUM]"
    using assms(1) upt_add_eq_append[of 0 i "LED_NUM - i"] upt_conv_Cons[of i LED_NUM] by simp
  have "fst (lite_led_poll_handle ub g) ! i
        = fst (fold (poll_led ub) [Suc i..<LED_NUM] (poll_led ub i (fold (poll_led ub) [0..<i] (g, [])))) ! i"
    unfolding lite_led_poll_handle_def split by simp
  also have "\<dots> = fst (poll_led ub i (fold (poll_led ub) [0..<i] (g, []))) ! i"
    by (rule fold_poll_other) simp
  also have "\<dots> = fst (poll_body ub (before ub i g) i)"
    unfolding before_def using assms by (intro poll_led_same) (simp add: length_fold_poll)
  finally show ?thesis .
qed

lemma before_nth_ge: "i \<le> j \<Longrightarrow> before ub i g ! j = g ! j"
  unfolding before_def by (subst fold_poll_other) simp_all

lemma length_before: "length (before ub i g) = length g"
  unfolding before_def by (simp add: length_fold_poll)

lemma length_poll: "length (fst (lite_led_poll_handle ub g)) = length g"
  unfolding lite_led_poll_handle_def by (simp add: length_fold_poll)

lemma before_nth_lt:
  assumes "j < i" "i \<le> LED_NUM"
  shows "before ub i g ! j = fst (lite_led_poll_handle ub g) ! j"
proof -
  have split: "[0..<LED_NUM] = [0..<i] @ [i..<LED_NUM]"
    using assms(2) upt_add_eq_append[of 0 i "LED_NUM - i"] by simp
  have "fst (lite_led_poll_handle ub g) ! j
        = fst (fold (poll_led ub) [i..<LED_NUM] (fold (poll_led ub) [0..<i] (g, []))) ! j"
    unfolding lite_led_poll_handle_def split by simp
  also have "\<dots> = before ub i g ! j"
    unfolding before_def using assms(1) by (subst fold_poll_other) simp_all
  finally show ?thesis by simp
qed

lemma snd_poll_led:
  "snd (poll_led ub i s)
     = snd s @ (case snd (poll_body ub (fst s) i) of None \<Rightarrow> [] | Some p \<Rightarrow> [Set_percent i p])"
  by (cases s) (simp add: poll_led_def split: prod.splits)

lemma percent_calls_append: "percent_calls i (xs @ ys) = percent_calls i xs @ percent_calls i ys"
  by (simp add: percent_calls_def)

lemma percent_calls_poll_led_other:
  "j \<noteq> i \<Longrightarrow> percent_calls j (snd (poll_led ub i s)) = percent_calls j (snd s)"
  by (cases "snd (poll_body ub (fst s) i)") (simp_all add: snd_poll_led percent_calls_def)

lemma percent_calls_fold_other:
  "j \<notin> set js \<Longrightarrow> percent_calls j (snd (fold (poll_led ub) js s)) = percent_calls j (snd s)"
  by (induction js arbitrary: s) (simp_all add: percent_calls_poll_led_other)

lemma percent_calls_poll:
  assumes "i < LED_NUM"
  shows "percent_calls i (snd (lite_led_poll_handle ub g))
           = (case snd (poll_body ub (before ub i g) i) of None \<Rightarrow> [] | Some p \<Rightarrow> [p])"
proof -
  have split: "[0..<LED_NUM] = [0..<i] @ i # [Suc i..<LED_NUM]"
    using assms(1) upt_add_eq_append[of 0 i "LED_NUM - i"] upt_conv_Cons[of i LED_NUM] by simp
  have "percent_calls i (snd (lite_led_poll_handle ub g))
        = percent_calls i (snd (poll_led ub i (fold (poll_led ub) [0..<i] (g, []))))"
    unfolding lite_led_poll_handle_def split by (simp add: percent_calls_fold_other)
  also have "\<dots> = percent_calls i (snd (fold (poll_led ub) [0..<i] (g, [])))
                  @ (case snd (poll_body ub (before ub i g) i) of None \<Rightarrow> [] | Some p \<Rightarrow> [p])"
    by (cases "snd (poll_body ub (before ub i g) i)")
       (simp_all add: snd_poll_led before_def percent_calls_def)
  also have "percent_calls i (snd (fold (poll_led ub) [0..<i] (g, []))) = []"
    by (subst percent_calls_fold_other) (simp_all add: percent_calls_def)
  finally show ?thesis by simp
qed

lemma expiry_calls_poll_led: "expiry_calls j (snd (poll_led ub i s)) = expiry_calls j (snd s)"
  by (cases "snd (poll_body ub (fst s) i)") (simp_all add: snd_poll_led expiry_calls_def)

lemma expiry_calls_fold: "expiry_calls j (snd (fold (poll_led ub) js s)) = expiry_calls j (snd s)"
  by (induction js arbitrary: s) (simp_all add: expiry_calls_poll_led)

lemma expiry_calls_poll: "expiry_calls j (snd (lite_led_poll_handle ub g)) = 0"
  unfolding lite_led_poll_handle_def by (simp add: expiry_calls_fold) (simp add: expiry_calls_def)

text \<open>What the switch leaves alone.\<close>

lemma mode_handle_keeps:
  "set_percent_cb (mode_handle ub g i led) = set_percent_cb led"
  "dur_timeout_cb (mode_handle ub g i led) = dur_timeout_cb led"
  "led_id (mode_handle ub g i led) = led_id led"
  "cfg (mode_handle ub g i led) = cfg led"
  "remain_tick (stat (mode_handle ub g i led)) = remain_tick (stat led)"
  "dur_timeout (stat (mode_handle ub g i led)) = dur_timeout (stat led)"
  by (simp_all add: mode_handle_def Let_def)

lemma poll_body_keeps:
  "set_percent_cb (fst (poll_body ub g i)) = set_percent_cb (g ! i)"
  "dur_timeout_cb (fst (poll_body ub g i)) = dur_timeout_cb (g ! i)"
  "led_id (fst (poll_body ub g i)) = led_id (g ! i)"
  "dur_timeout (stat (fst (poll_body ub g i))) = dur_timeout (stat (g ! i))"
  by (simp_all add: poll_body_def Let_def mode_handle_keeps)

lemma mode_handle_alone:
  assumes "\<not> (mode (cfg led) = LED_MODE_ALTERNATE \<and> alter_id (cfg led) < LED_NUM
      \<and> \<not> led_id led < alter_id (cfg led))"
  shows "mode_handle ub g i led = mode_handle ub g' i' led"
proof (cases "mode (cfg led) = LED_MODE_ALTERNATE")
  case False
  then show ?thesis by (simp add: mode_handle_def Let_def)
next
  case True
  then show ?thesis using assms by (simp add: mode_handle_def Let_def led_consts)
qed

lemma poll_body_alone:
  assumes "\<not> reads_peer (g ! i)"
  shows "poll_body ub g i = led_tick ub (g ! i)"
proof -
  have a: "mode_handle ub g i ((g ! i)\<lparr>stat := s\<rparr>) = mode_handle ub [g ! i] 0 ((g ! i)\<lparr>stat := s\<rparr>)" for s
    by (rule mode_handle_alone) (use assms in \<open>simp add: reads_peer_def\<close>)
  have b: "mode_handle ub g i (g ! i) = mode_handle ub [g ! i] 0 (g ! i)"
    by (rule mode_handle_alone) (use assms in \<open>simp add: reads_peer_def\<close>)
  show ?thesis
    unfolding poll_body_def led_tick_def by (simp add: Let_def a b)
qed

lemma poll_body_cfg:
  "cfg (fst (poll_body ub g i)) = cfg (g ! i) \<or>
   cfg (fst (poll_body ub g i)) = (cfg (g ! i))\<lparr>mode := LED_MODE_OFF\<rparr>"
  by (simp add: poll_body_def Let_def mode_handle_keeps)

lemma led_tick_keeps:
  "set_percent_cb (fst (led_tick ub led)) = set_percent_cb led"
  "led_id (fst (led_tick ub led)) = led_id led"
  using poll_body_keeps[of ub "[led]" 0] by (simp_all add: led_tick_def)

lemma led_tick_no_peer: "\<not> reads_peer led \<Longrightarrow> \<not> reads_peer (fst (led_tick ub led))"
  using poll_body_cfg[of ub "[led]" 0] 
  by (auto simp: reads_peer_def led_tick_def led_tick_keeps[unfolded led_tick_def] led_consts)

lemma led_ticks_no_peer: "\<not> reads_peer led \<Longrightarrow> \<not> reads_peer (led_ticks ub n led)"
  by (induction n) (simp_all add: led_tick_no_peer)

lemma poll_nth_alone:
  assumes "i < LED_NUM" "length g = LED_NUM" "\<not> reads_peer (g ! i)"
  shows "fst (lite_led_poll_handle ub g) ! i = fst (led_tick ub (g ! i))"
    and "percent_calls i (snd (lite_led_poll_handle ub g))
           = (case snd (led_tick ub (g ! i)) of None \<Rightarrow> [] | Some p \<Rightarrow> [p])"
  using assms poll_body_alone[of "before ub i g" i ub]
  by (simp_all add: poll_nth percent_calls_poll before_nth_ge)

lemma length_ticks: "length (ticks ub n g) = length g"
  by (induction n) (simp_all add: length_poll)

lemma ticks_nth_alone:
  assumes "i < LED_NUM" "length g = LED_NUM" "\<not> reads_peer (g ! i)"
  shows "ticks ub n g ! i = led_ticks ub n (g ! i)"
  using assms
  by (induction n) (simp_all add: poll_nth_alone length_ticks led_ticks_no_peer)

lemma calls_at_alone:
  assumes "i < LED_NUM" "length g = LED_NUM" "\<not> reads_peer (g ! i)"
  shows "percent_calls i (calls_at ub (Suc n) g)
           = (case snd (led_tick ub (led_ticks ub n (g ! i))) of None \<Rightarrow> [] | Some p \<Rightarrow> [p])"
  using assms unfolding calls_at_def
  by (simp add: poll_nth_alone length_ticks led_ticks_no_peer ticks_nth_alone)

section \<open>The cases of the loop body\<close>

lemma write_nth:
  "i < LED_MAX \<Longrightarrow> i < length g \<Longrightarrow>
   snd (lite_led_write i (Some c) g) ! i = snd (write_switch i c (write_convert c (g ! i)))"
  by (simp add: lite_led_write_def split: prod.splits)

lemma length_write: "length (snd (lite_led_write i c g)) = length g"
  by (simp add: lite_led_write_def split: prod.splits option.splits)

lemma stat_upd_id:
  "remain_tick s = r \<Longrightarrow> s\<lparr>remain_tick := r\<rparr> = s"
  "next_tick s = n \<Longrightarrow> s\<lparr>next_tick := n\<rparr> = s"
  "remain_tick s = r \<Longrightarrow> next_tick s = n \<Longrightarrow> s\<lparr>remain_tick := r, next_tick := n\<rparr> = s"
  by (cases s; simp)+

lemma dev_upd_id: "stat led = s \<Longrightarrow> led\<lparr>stat := s\<rparr> = led"
  by (cases led) simp

lemma led_tick_uninit:
  "set_percent_cb led = None \<Longrightarrow> led_tick ub led = (led, None)"
  by (simp add: led_tick_def poll_body_def)

lemma led_tick_expire:
  "set_percent_cb led \<noteq> None \<Longrightarrow> remain_tick (stat led) = Suc 0 \<Longrightarrow>
     led_tick ub led = (led\<lparr>cfg := (cfg led)\<lparr>mode := LED_MODE_OFF\<rparr>,
                          stat := (stat led)\<lparr>remain_tick := 0, next_tick := 0\<rparr>\<rparr>, None)"
  by (clarsimp simp: led_tick_def poll_body_def Let_def)

lemma led_tick_blocked:
  "set_percent_cb led \<noteq> None \<Longrightarrow> remain_tick (stat led) \<noteq> Suc 0 \<Longrightarrow>
     next_tick (stat led) = LED_BLOCK_FOREVER \<Longrightarrow>
     led_tick ub led = (led\<lparr>stat := (stat led)\<lparr>remain_tick := remain_tick (stat led) - 1\<rparr>\<rparr>, None)"
  by (cases "remain_tick (stat led) = 0")
     (clarsimp simp: led_tick_def poll_body_def Let_def stat_upd_id dev_upd_id)+

lemma led_tick_wait:
  "set_percent_cb led \<noteq> None \<Longrightarrow> remain_tick (stat led) \<noteq> Suc 0 \<Longrightarrow>
     next_tick (stat led) \<noteq> LED_BLOCK_FOREVER \<Longrightarrow> 1 < next_tick (stat led) \<Longrightarrow>
     led_tick ub led = (led\<lparr>stat := (stat led)\<lparr>remain_tick := remain_tick (stat led) - 1,
                                    next_tick := next_tick (stat led) - 1\<rparr>\<rparr>, None)"
  by (cases "remain_tick (stat led) = 0")
     (clarsimp simp: led_tick_def poll_body_def Let_def stat_upd_id dev_upd_id)+

lemma led_tick_dispatch:
  "set_percent_cb led \<noteq> None \<Longrightarrow> remain_tick (stat led) \<noteq> Suc 0 \<Longrightarrow>
     next_tick (stat led) \<le> 1 \<Longrightarrow>
     led_tick ub led =
       (let l = mode_handle ub [led] 0
                  (led\<lparr>stat := (stat led)\<lparr>remain_tick := remain_tick (stat led) - 1,
                                    next_tick := 0\<rparr>\<rparr>)
        in (l, Some (percent (stat l))))"
  by (cases "remain_tick (stat led) = 0"; cases "next_tick (stat led) = 0")
     (clarsimp simp: led_tick_def poll_body_def Let_def LED_BLOCK_FOREVER_def stat_upd_id dev_upd_id)+

lemma slot1_facts:
  "1 < LED_NUM" "length slot1 = LED_NUM" "set_percent_cb (slot1 ! 1) \<noteq> None"
  "led_id (slot1 ! 1) = 1"
  by (simp_all add: slot1_def lite_led_init_def g_led_list_init_def led_consts)

section \<open>Out-of-range identifiers\<close>

text \<open>
  C9. For every identifier \<open>i \<ge> LED_NUM\<close>, each of \<open>lite_led_init\<close>,
  \<open>lite_led_write\<close> and \<open>lite_led_read\<close> returns the invalid-argument code and the
  registry (and the caller's output location) is what it was.
\<close>

theorem out_of_range_id_rejected:
  "LED_NUM \<le> i \<Longrightarrow>
     lite_led_init i cb g = (LED_ERROR_PARA_INVALID, g) \<and>
     lite_led_write i c g = (LED_ERROR_PARA_INVALID, g) \<and>
     lite_led_read i st g = (LED_ERROR_PARA_INVALID, st, g)"
  by (simp add: lite_led_init_def lite_led_write_def lite_led_read_def LED_NUM_def
      LED_ERROR_PARA_INVALID_def split: option.split)

theorem out_of_range_id_rejected_witness:
  "LED_NUM \<le> 4 \<and>
     lite_led_init 4 (Some 1) g_led_list_init = (LED_ERROR_PARA_INVALID, g_led_list_init) \<and>
     lite_led_write 4 (Some blink_cfg) g_led_list_init
       = (LED_ERROR_PARA_INVALID, g_led_list_init) \<and>
     lite_led_read 4 (Some zero_stat) g_led_list_init
       = (LED_ERROR_PARA_INVALID, Some zero_stat, g_led_list_init)"
  using out_of_range_id_rejected [of 4 "Some 1" g_led_list_init "Some blink_cfg" "Some zero_stat"]
  by (simp add: LED_NUM_def LED_MAX_def)

section \<open>Runs of idle ticks\<close>

lemma led_ticks_add: "led_ticks ub (m + n) led = led_ticks ub m (led_ticks ub n led)"
  by (induction m) simp_all

lemma led_ticks_wait:
  assumes "set_percent_cb led \<noteq> None" "next_tick (stat led) < LED_BLOCK_FOREVER"
    "m < next_tick (stat led)" "remain_tick (stat led) = 0 \<or> m < remain_tick (stat led)"
  shows "led_ticks ub m led
           = led\<lparr>stat := (stat led)\<lparr>remain_tick := remain_tick (stat led) - m,
                                    next_tick := next_tick (stat led) - m\<rparr>\<rparr>"
  using assms
proof (induction m)
  case 0
  then show ?case by (simp add: stat_upd_id dev_upd_id)
next
  case (Suc m)
  let ?l = "led\<lparr>stat := (stat led)\<lparr>remain_tick := remain_tick (stat led) - m,
                                    next_tick := next_tick (stat led) - m\<rparr>\<rparr>"
  have eq: "led_ticks ub m led = ?l" using Suc by auto
  have "led_tick ub ?l = (?l\<lparr>stat := (stat ?l)\<lparr>remain_tick := remain_tick (stat ?l) - 1,
                                    next_tick := next_tick (stat ?l) - 1\<rparr>\<rparr>, None)"
    using Suc.prems by (intro led_tick_wait) auto
  then show ?case by (simp add: eq)
qed

lemma led_ticks_wait_calls:
  assumes "set_percent_cb led \<noteq> None" "next_tick (stat led) < LED_BLOCK_FOREVER"
    "Suc m < next_tick (stat led)" "remain_tick (stat led) = 0 \<or> Suc m < remain_tick (stat led)"
  shows "snd (led_tick ub (led_ticks ub m led)) = None"
proof -
  let ?l = "led\<lparr>stat := (stat led)\<lparr>remain_tick := remain_tick (stat led) - m,
                                    next_tick := next_tick (stat led) - m\<rparr>\<rparr>"
  have eq: "led_ticks ub m led = ?l" using assms by (intro led_ticks_wait) auto
  have "led_tick ub ?l = (?l\<lparr>stat := (stat ?l)\<lparr>remain_tick := remain_tick (stat ?l) - 1,
                                    next_tick := next_tick (stat ?l) - 1\<rparr>\<rparr>, None)"
    using assms by (intro led_tick_wait) auto
  then show ?thesis by (simp add: eq)
qed

lemma mode_handle_blink:
  "mode (cfg led) = LED_MODE_BLINK \<Longrightarrow>
   mode_handle ub g i led =
     (if state (stat led) = LED_STATE_OFF then
        led\<lparr>stat := (stat led)\<lparr>next_tick := on_tick (cfg led), percent := LED_MAX_BRIGHTNESS,
                 state := LED_STATE_ON\<rparr>\<rparr>
      else
        led\<lparr>stat := (stat led)\<lparr>next_tick := off_tick (cfg led), percent := LED_MIN_BRIGHTNESS,
                 state := LED_STATE_OFF\<rparr>\<rparr>)"
  by (cases "state (stat led)") (simp_all add: mode_handle_def Let_def led_consts)

lemma write_blink_nth:
  assumes "i < LED_NUM" "length g = LED_NUM" "cfg_mode c = LED_MODE_BLINK"
  shows "snd (lite_led_write i (Some c) g) ! i = write_convert c (g ! i)"
  using assms by (simp add: write_nth write_switch_def led_consts)

section \<open>BLINK\<close>

text \<open>
  C5, as the handler behaves. An initialised record is configured with BLINK,
  \<open>on_ms = 200\<close> and \<open>off_ms = 800\<close> (poll period 100), with a lifetime that does not
  end within the ticks observed: indefinite (\<open>duration_ms\<close> under one poll period) or of
  at least 1200 ms. Tick 1 calls the brightness callback with 100 and schedules 2 ticks,
  tick 2 makes no call, tick 3 calls it with 0 and schedules 8 ticks, ticks 4 to 10 make no
  call, and tick 11 calls it with 100 again.
\<close>

theorem blink_tick_sequence:
  assumes "i < LED_NUM" "length g = LED_NUM" "set_percent_cb (g ! i) \<noteq> None"
    and "cfg_mode c = LED_MODE_BLINK" "on_ms c = 200" "off_ms c = 800"
    and "duration_ms c < LED_POLL_PERIOD_MS \<or> 1200 \<le> duration_ms c"
    and "g0 = snd (lite_led_write i (Some c) g)"
  shows "percent_calls i (calls_at ub 1 g0) = [100] \<and>
         next_tick (stat (ticks ub 1 g0 ! i)) = 2 \<and>
         percent_calls i (calls_at ub 2 g0) = [] \<and>
         percent_calls i (calls_at ub 3 g0) = [0] \<and>
         next_tick (stat (ticks ub 3 g0 ! i)) = 8 \<and>
         (\<forall>n. 4 \<le> n \<and> n \<le> 10 \<longrightarrow> percent_calls i (calls_at ub n g0) = []) \<and>
         percent_calls i (calls_at ub 11 g0) = [100]"
proof -
  define d where "d = duration_ms c div LED_POLL_PERIOD_MS"
  have d: "d = 0 \<or> 12 \<le> d"
    using assms(7) by (auto simp: d_def LED_POLL_PERIOD_MS_def)
  define r0 where "r0 = g0 ! i"
  have r0: "r0 = write_convert c (g ! i)"
    using assms by (simp add: r0_def write_blink_nth)
  have len: "length g0 = LED_NUM"
    using assms by (simp add: length_write)
  have cb0: "set_percent_cb r0 \<noteq> None" and m0: "mode (cfg r0) = LED_MODE_BLINK"
    and on0: "on_tick (cfg r0) = 2" and off0: "off_tick (cfg r0) = 8"
    and s0: "stat r0 = zero_stat\<lparr>remain_tick := d\<rparr>"
    using assms by (simp_all add: r0 write_convert_def Let_def d_def LED_POLL_PERIOD_MS_def)
  have np: "\<not> reads_peer r0"
    by (simp add: reads_peer_def m0 led_consts)
  have nth: "ticks ub n g0 ! i = led_ticks ub n r0" for n
    unfolding r0_def using assms(1) len np[unfolded r0_def] by (rule ticks_nth_alone)
  have calls: "percent_calls i (calls_at ub (Suc n) g0)
           = (case snd (led_tick ub (led_ticks ub n r0)) of None \<Rightarrow> [] | Some p \<Rightarrow> [p])" for n
    unfolding r0_def using assms(1) len np[unfolded r0_def] by (rule calls_at_alone)
  \<comment> \<open>tick 1: the on-phase begins\<close>
  define r1 where "r1 = r0\<lparr>stat := zero_stat\<lparr>remain_tick := d - 1, next_tick := 2,
      percent := 100, state := LED_STATE_ON\<rparr>\<rparr>"
  have t1: "led_tick ub r0 = (r1, Some 100)"
    using d cb0 by (subst led_tick_dispatch)
      (auto simp: s0 zero_stat_def mode_handle_blink m0 on0 r1_def Let_def led_consts)
  \<comment> \<open>tick 2 is idle, tick 3 begins the off-phase\<close>
  define r2 where "r2 = r0\<lparr>stat := zero_stat\<lparr>remain_tick := d - 2, next_tick := 1,
      percent := 100, state := LED_STATE_ON\<rparr>\<rparr>"
  have t2: "led_tick ub r1 = (r2, None)"
    using d cb0 by (subst led_tick_wait)
      (auto simp: r1_def r2_def zero_stat_def led_consts)
  define r3 where "r3 = r0\<lparr>stat := zero_stat\<lparr>remain_tick := d - 3, next_tick := 8,
      percent := 0, state := LED_STATE_OFF\<rparr>\<rparr>"
  have t3: "led_tick ub r2 = (r3, Some 0)"
    using d cb0 by (subst led_tick_dispatch)
      (auto simp: r2_def r3_def zero_stat_def mode_handle_blink m0 off0 Let_def led_consts)
  have l1: "led_ticks ub 1 r0 = r1" by (simp add: t1)
  have l2: "led_ticks ub 2 r0 = r2" using l1 by (simp add: t2 numeral_2_eq_2)
  have l3: "led_ticks ub 3 r0 = r3" using l2 by (simp add: t3 numeral_3_eq_3 numeral_2_eq_2)
  \<comment> \<open>ticks 4 to 10 count the eight ticks down\<close>
  have cb3: "set_percent_cb r3 \<noteq> None" and n3: "next_tick (stat r3) = 8"
    and rem3: "remain_tick (stat r3) = d - 3"
    using cb0 by (simp_all add: r3_def)
  have idle: "snd (led_tick ub (led_ticks ub m r3)) = None" if "m < 7" for m
    using cb3 d that by (intro led_ticks_wait_calls) (auto simp: n3 rem3 led_consts)
  have l3m: "led_ticks ub (m + 3) r0 = led_ticks ub m r3" for m
    by (simp add: led_ticks_add l3)
  have l10: "led_ticks ub 7 r3 = r3\<lparr>stat := (stat r3)\<lparr>remain_tick := d - 10, next_tick := 1\<rparr>\<rparr>"
    using cb3 d by (subst led_ticks_wait) (auto simp: n3 rem3 led_consts)
  have t11: "snd (led_tick ub (led_ticks ub 7 r3)) = Some 100"
    using d cb0 by (subst l10, subst led_tick_dispatch)
      (auto simp: r3_def zero_stat_def mode_handle_blink m0 on0 Let_def led_consts)
  have c1: "percent_calls i (calls_at ub 1 g0) = [100]"
    using calls[of 0] by (simp add: t1)
  have c2: "percent_calls i (calls_at ub 2 g0) = []"
    using calls[of 1] l1 by (simp add: t2 numeral_2_eq_2)
  have c3: "percent_calls i (calls_at ub 3 g0) = [0]"
    using calls[of 2] l2 by (simp add: t3 numeral_3_eq_3)
  have c410: "percent_calls i (calls_at ub n g0) = []" if "4 \<le> n" "n \<le> 10" for n
  proof -
    define m where "m = n - 4"
    have n: "n = Suc (m + 3)" and m: "m < 7"
      using that by (simp_all add: m_def)
    show ?thesis unfolding n using calls[of "m + 3"] idle[OF m] by (simp add: l3m)
  qed
  have c11: "percent_calls i (calls_at ub 11 g0) = [100]"
    using calls[of 10] t11 l3m[of 7] by simp
  have n1: "next_tick (stat (ticks ub 1 g0 ! i)) = 2"
    unfolding nth l1 by (simp add: r1_def)
  have n3': "next_tick (stat (ticks ub 3 g0 ! i)) = 8"
    unfolding nth l3 by (simp add: r3_def)
  show ?thesis using c1 c2 c3 c410 c11 n1 n3' by blast
qed

theorem blink_tick_sequence_witness:
  "1 < LED_NUM \<and> length slot1 = LED_NUM \<and> set_percent_cb (slot1 ! 1) \<noteq> None \<and>
   cfg_mode blink_cfg = LED_MODE_BLINK \<and> on_ms blink_cfg = 200 \<and>
   off_ms blink_cfg = 800 \<and> duration_ms blink_cfg < LED_POLL_PERIOD_MS \<and>
   percent_calls 1 (calls_at ub0 1 blink_demo) = [100] \<and>
   next_tick (stat (ticks ub0 1 blink_demo ! 1)) = 2 \<and>
   percent_calls 1 (calls_at ub0 2 blink_demo) = [] \<and>
   percent_calls 1 (calls_at ub0 3 blink_demo) = [0] \<and>
   next_tick (stat (ticks ub0 3 blink_demo ! 1)) = 8 \<and>
   percent_calls 1 (calls_at ub0 10 blink_demo) = [] \<and>
   percent_calls 1 (calls_at ub0 11 blink_demo) = [100]"
proof -
  have c: "cfg_mode blink_cfg = LED_MODE_BLINK" "on_ms blink_cfg = 200" "off_ms blink_cfg = 800"
    and d: "duration_ms blink_cfg < LED_POLL_PERIOD_MS"
    by (simp_all add: blink_cfg_def LED_POLL_PERIOD_MS_def)
  from blink_tick_sequence [OF slot1_facts(1,2,3) c disjI1 [OF d] blink_demo_def, of ub0]
  show ?thesis using slot1_facts(1,2,3) c d by simp
qed

section \<open>Lifetimes\<close>

lemma poll_body_no_expiry:
  "remain_tick (stat (g ! i)) = 0 \<Longrightarrow>
     remain_tick (stat (fst (poll_body ub g i))) = 0 \<and> cfg (fst (poll_body ub g i)) = cfg (g ! i)"
  by (simp add: poll_body_def Let_def mode_handle_keeps)

lemma ticks_no_expiry:
  assumes "i < LED_NUM" "length g = LED_NUM" "remain_tick (stat (g ! i)) = 0"
  shows "remain_tick (stat (ticks ub n g ! i)) = 0 \<and> cfg (ticks ub n g ! i) = cfg (g ! i)"
proof (induction n)
  case 0
  then show ?case using assms by simp
next
  case (Suc n)
  have "remain_tick (stat (before ub i (ticks ub n g) ! i)) = 0"
    using Suc by (simp add: before_nth_ge)
  from poll_body_no_expiry[OF this, of ub] show ?case
    using assms(1,2) Suc by (simp add: poll_nth length_ticks before_nth_ge)
qed

lemma write_stored:
  assumes "i < LED_NUM" "length g = LED_NUM"
  shows "mode (cfg (snd (lite_led_write i (Some c) g) ! i)) = cfg_mode c"
    and "duration_tick (cfg (snd (lite_led_write i (Some c) g) ! i))
           = duration_ms c div LED_POLL_PERIOD_MS"
    and "remain_tick (stat (snd (lite_led_write i (Some c) g) ! i))
           = duration_ms c div LED_POLL_PERIOD_MS"
    and "set_percent_cb (snd (lite_led_write i (Some c) g) ! i) = set_percent_cb (g ! i)"
    and "led_id (snd (lite_led_write i (Some c) g) ! i) = led_id (g ! i)"
  using assms
  by (simp_all add: write_nth LED_NUM_def write_switch_def write_convert_def Let_def)

text \<open>
  C10. A Configure call with \<open>0 < duration_ms < LED_POLL_PERIOD_MS\<close> does exactly what
  the same call with \<open>duration_ms = 0\<close> does: the stored lifetime is 0 ticks, and from
  then on no tick changes the countdown or forces the mode to OFF.
\<close>

theorem short_lifetime_is_indefinite:
  assumes "0 < duration_ms c" "duration_ms c < LED_POLL_PERIOD_MS"
    and "i < LED_NUM" "length g = LED_NUM"
    and "g0 = snd (lite_led_write i (Some c) g)"
  shows "lite_led_write i (Some c) g = lite_led_write i (Some (c\<lparr>duration_ms := 0\<rparr>)) g \<and>
         duration_tick (cfg (g0 ! i)) = 0 \<and> remain_tick (stat (g0 ! i)) = 0 \<and>
         (\<forall>n. remain_tick (stat (ticks ub n g0 ! i)) = 0 \<and>
              mode (cfg (ticks ub n g0 ! i)) = cfg_mode c)"
proof -
  have conv: "write_convert (c\<lparr>duration_ms := 0\<rparr>) led = write_convert c led" for led
    using assms(2) by (simp add: write_convert_def)
  have sw: "write_switch i (c\<lparr>duration_ms := 0\<rparr>) led = write_switch i c led" for led
    by (simp add: write_switch_def write_phase_step_def)
  have same: "lite_led_write i (Some c) g = lite_led_write i (Some (c\<lparr>duration_ms := 0\<rparr>)) g"
    by (simp add: lite_led_write_def conv sw)
  have d0: "duration_tick (cfg (g0 ! i)) = 0" and r0: "remain_tick (stat (g0 ! i)) = 0"
    and m0: "mode (cfg (g0 ! i)) = cfg_mode c"
    using assms by (simp_all add: write_stored)
  have len: "length g0 = LED_NUM"
    using assms by (simp add: length_write)
  have "remain_tick (stat (ticks ub n g0 ! i)) = 0 \<and> mode (cfg (ticks ub n g0 ! i)) = cfg_mode c"
    for n
    using ticks_no_expiry[OF assms(3) len r0, of ub n] m0 by simp
  then show ?thesis using same d0 r0 by blast
qed

theorem short_lifetime_is_indefinite_witness:
  "0 < duration_ms short_cfg \<and> duration_ms short_cfg < LED_POLL_PERIOD_MS \<and> 1 < LED_NUM \<and>
   length slot1 = LED_NUM \<and>
   remain_tick (stat (ticks ub0 7 short_demo ! 1)) = 0 \<and>
   mode (cfg (ticks ub0 7 short_demo ! 1)) = LED_MODE_ON"
proof -
  have h1: "0 < duration_ms short_cfg" and h2: "duration_ms short_cfg < LED_POLL_PERIOD_MS"
    and m: "cfg_mode short_cfg = LED_MODE_ON"
    by (simp_all add: short_cfg_def LED_POLL_PERIOD_MS_def)
  have "\<forall>n. remain_tick (stat (ticks ub0 n short_demo ! 1)) = 0 \<and>
             mode (cfg (ticks ub0 n short_demo ! 1)) = cfg_mode short_cfg"
    using short_lifetime_is_indefinite [OF h1 h2 slot1_facts(1,2) short_demo_def, of ub0]
    by blast
  then have "remain_tick (stat (ticks ub0 7 short_demo ! 1)) = 0 \<and>
             mode (cfg (ticks ub0 7 short_demo ! 1)) = cfg_mode short_cfg"
    by blast
  then show ?thesis using h1 h2 slot1_facts(1,2) m by simp
qed

section \<open>The end of a lifetime\<close>

lemma poll_body_countdown:
  assumes "set_percent_cb (g ! i) \<noteq> None" "remain_tick (stat (g ! i)) = Suc (Suc r)"
  shows "remain_tick (stat (fst (poll_body ub g i))) = Suc r \<and>
         cfg (fst (poll_body ub g i)) = cfg (g ! i)"
  using assms by (clarsimp simp: poll_body_def Let_def mode_handle_keeps)

lemma poll_body_expire:
  assumes "set_percent_cb (g ! i) \<noteq> None" "remain_tick (stat (g ! i)) = Suc 0"
  shows "poll_body ub g i
           = ((g ! i)\<lparr>cfg := (cfg (g ! i))\<lparr>mode := LED_MODE_OFF\<rparr>,
                      stat := (stat (g ! i))\<lparr>remain_tick := 0, next_tick := 0\<rparr>\<rparr>, None)"
  using assms by (clarsimp simp: poll_body_def Let_def)

lemma poll_body_off:
  assumes "set_percent_cb (g ! i) \<noteq> None" "remain_tick (stat (g ! i)) = 0"
    "next_tick (stat (g ! i)) = 0" "mode (cfg (g ! i)) = LED_MODE_OFF"
  shows "poll_body ub g i
           = ((g ! i)\<lparr>stat := (stat (g ! i))\<lparr>state := LED_STATE_OFF,
                 percent := LED_MIN_BRIGHTNESS, next_tick := LED_BLOCK_FOREVER\<rparr>\<rparr>,
              Some LED_MIN_BRIGHTNESS)"
  using assms by (clarsimp simp: poll_body_def Let_def mode_handle_def LED_BLOCK_FOREVER_def)

lemma poll_body_idle:
  assumes "remain_tick (stat (g ! i)) = 0" "next_tick (stat (g ! i)) = LED_BLOCK_FOREVER"
  shows "poll_body ub g i = (g ! i, None)"
  using assms by (simp add: poll_body_def Let_def)

text \<open>The same facts about one tick of the whole registry.\<close>

lemma tick_countdown:
  assumes "i < LED_NUM" "length g = LED_NUM"
    and "set_percent_cb (g ! i) \<noteq> None" "remain_tick (stat (g ! i)) = Suc (Suc r)"
  shows "remain_tick (stat (fst (lite_led_poll_handle ub g) ! i)) = Suc r \<and>
         cfg (fst (lite_led_poll_handle ub g) ! i) = cfg (g ! i) \<and>
         set_percent_cb (fst (lite_led_poll_handle ub g) ! i) = set_percent_cb (g ! i)"
  using assms poll_body_countdown[of "before ub i g" i r ub] poll_body_keeps(1)[of ub "before ub i g" i]
  by (simp add: poll_nth before_nth_ge)

lemma ticks_countdown:
  assumes "i < LED_NUM" "length g = LED_NUM"
    and "set_percent_cb (g ! i) \<noteq> None" "remain_tick (stat (g ! i)) = k + Suc r"
  shows "remain_tick (stat (ticks ub k g ! i)) = Suc r \<and>
         cfg (ticks ub k g ! i) = cfg (g ! i) \<and>
         set_percent_cb (ticks ub k g ! i) = set_percent_cb (g ! i)"
  using assms(4)
proof (induction k arbitrary: r)
  case 0
  then show ?case by simp
next
  case (Suc k)
  have ih: "remain_tick (stat (ticks ub k g ! i)) = Suc (Suc r) \<and>
         cfg (ticks ub k g ! i) = cfg (g ! i) \<and>
         set_percent_cb (ticks ub k g ! i) = set_percent_cb (g ! i)"
    using Suc.IH[of "Suc r"] Suc.prems by simp
  show ?case
    using tick_countdown[of i "ticks ub k g" r ub] ih assms(1,2,3)
    by (simp add: length_ticks)
qed

lemma tick_expire:
  assumes "i < LED_NUM" "length g = LED_NUM"
    and "set_percent_cb (g ! i) \<noteq> None" "remain_tick (stat (g ! i)) = Suc 0"
  shows "fst (lite_led_poll_handle ub g) ! i
           = (g ! i)\<lparr>cfg := (cfg (g ! i))\<lparr>mode := LED_MODE_OFF\<rparr>,
                     stat := (stat (g ! i))\<lparr>remain_tick := 0, next_tick := 0\<rparr>\<rparr>"
    and "percent_calls i (snd (lite_led_poll_handle ub g)) = []"
  using assms poll_body_expire[of "before ub i g" i ub]
  by (simp_all add: poll_nth percent_calls_poll before_nth_ge)

lemma tick_off:
  assumes "i < LED_NUM" "length g = LED_NUM"
    and "set_percent_cb (g ! i) \<noteq> None" "remain_tick (stat (g ! i)) = 0"
    "next_tick (stat (g ! i)) = 0" "mode (cfg (g ! i)) = LED_MODE_OFF"
  shows "fst (lite_led_poll_handle ub g) ! i
           = (g ! i)\<lparr>stat := (stat (g ! i))\<lparr>state := LED_STATE_OFF,
                 percent := LED_MIN_BRIGHTNESS, next_tick := LED_BLOCK_FOREVER\<rparr>\<rparr>"
    and "percent_calls i (snd (lite_led_poll_handle ub g)) = [LED_MIN_BRIGHTNESS]"
  using assms poll_body_off[of "before ub i g" i ub]
  by (simp_all add: poll_nth percent_calls_poll before_nth_ge)

lemma tick_idle:
  assumes "i < LED_NUM" "length g = LED_NUM"
    and "remain_tick (stat (g ! i)) = 0" "next_tick (stat (g ! i)) = LED_BLOCK_FOREVER"
  shows "fst (lite_led_poll_handle ub g) ! i = g ! i"
    and "percent_calls i (snd (lite_led_poll_handle ub g)) = []"
  using assms poll_body_idle[of "before ub i g" i ub]
  by (simp_all add: poll_nth percent_calls_poll before_nth_ge)

lemma ticks_idle:
  assumes "i < LED_NUM" "length g = LED_NUM"
    and "remain_tick (stat (g ! i)) = 0" "next_tick (stat (g ! i)) = LED_BLOCK_FOREVER"
  shows "ticks ub n g ! i = g ! i"
  using assms by (induction n) (simp_all add: tick_idle length_ticks)

lemma ticks_add: "ticks ub (m + n) g = ticks ub m (ticks ub n g)"
  by (induction m) simp_all

lemma slot1_cb_facts:
  "length slot1_cb = LED_NUM" "set_percent_cb (slot1_cb ! 1) \<noteq> None"
  "dur_timeout_cb (slot1_cb ! 1) = Some 2"
  by (simp_all add: slot1_cb_def lite_led_register_duration_timeout_cb_def slot1_def
      lite_led_init_def g_led_list_init_def led_consts)

lemma expiry_demo_nth:
  "expiry_demo ! Suc 0 = \<lparr>led_id = 1,
      cfg = \<lparr>mode = LED_MODE_ON, alter_id = 0, on_tick = 0, off_tick = 0, fade_tick = 0,
              alternate_tick = 0, duration_tick = 5\<rparr>,
      stat = zero_stat\<lparr>remain_tick := 5\<rparr>, set_percent_cb = Some 1, dur_timeout_cb = Some 2\<rparr>"
  by (simp add: expiry_demo_def expiry_cfg_def slot1_cb_def slot1_def lite_led_write_def
      lite_led_register_duration_timeout_cb_def lite_led_init_def g_led_list_init_def
      write_switch_def write_convert_def zero_dev_def led_consts)

lemma led_ticks_numeral:
  "led_ticks ub (numeral k) led = fst (led_tick ub (led_ticks ub (pred_numeral k) led))"
  by (simp add: numeral_eq_Suc)

lemma ticks_numeral:
  "ticks ub (numeral k) g = fst (lite_led_poll_handle ub (ticks ub (pred_numeral k) g))"
  by (simp add: numeral_eq_Suc)

lemma mode_handle_on:
  "mode (cfg led) = LED_MODE_ON \<Longrightarrow>
   mode_handle ub g i led =
     led\<lparr>stat := (stat led)\<lparr>state := LED_STATE_ON, percent := LED_MAX_BRIGHTNESS,
                 next_tick := LED_BLOCK_FOREVER\<rparr>\<rparr>"
  by (simp add: mode_handle_def Let_def led_consts)

lemma led_ticks_blocked:
  assumes "set_percent_cb led \<noteq> None" "next_tick (stat led) = LED_BLOCK_FOREVER"
    "remain_tick (stat led) = 0 \<or> m < remain_tick (stat led)"
  shows "led_ticks ub m led
           = led\<lparr>stat := (stat led)\<lparr>remain_tick := remain_tick (stat led) - m\<rparr>\<rparr>"
  using assms
proof (induction m)
  case 0
  then show ?case by (simp add: stat_upd_id dev_upd_id)
next
  case (Suc m)
  let ?l = "led\<lparr>stat := (stat led)\<lparr>remain_tick := remain_tick (stat led) - m\<rparr>\<rparr>"
  have eq: "led_ticks ub m led = ?l" using Suc by auto
  have "led_tick ub ?l = (?l\<lparr>stat := (stat ?l)\<lparr>remain_tick := remain_tick (stat ?l) - 1\<rparr>\<rparr>, None)"
    using Suc.prems by (intro led_tick_blocked) auto
  then show ?case by (simp add: eq)
qed

lemma expiry_demo_ticks:
  "led_ticks ub0 5 (expiry_demo ! 1) = \<lparr>led_id = 1,
      cfg = \<lparr>mode = LED_MODE_OFF, alter_id = 0, on_tick = 0, off_tick = 0, fade_tick = 0,
              alternate_tick = 0, duration_tick = 5\<rparr>,
      stat = zero_stat\<lparr>state := LED_STATE_ON, percent := 100, remain_tick := 0, next_tick := 0\<rparr>,
      set_percent_cb = Some 1, dur_timeout_cb = Some 2\<rparr>"
proof -
  define r1 where "r1 = (expiry_demo ! 1)\<lparr>stat := zero_stat\<lparr>state := LED_STATE_ON,
      percent := 100, remain_tick := 4, next_tick := LED_BLOCK_FOREVER\<rparr>\<rparr>"
  have t1: "led_tick ub0 (expiry_demo ! 1) = (r1, Some 100)"
    by (subst led_tick_dispatch)
       (simp_all add: expiry_demo_nth mode_handle_on r1_def zero_stat_def Let_def
          LED_MAX_BRIGHTNESS_def)
  have t4: "led_ticks ub0 3 r1 = r1\<lparr>stat := (stat r1)\<lparr>remain_tick := 1\<rparr>\<rparr>"
    by (subst led_ticks_blocked) (simp_all add: r1_def expiry_demo_nth)
  have "led_ticks ub0 5 (expiry_demo ! 1) = fst (led_tick ub0 (led_ticks ub0 3 r1))"
    using led_ticks_add[of ub0 3 1 "expiry_demo ! 1"] t1 by (simp add: led_ticks_numeral)
  also have "\<dots> = fst (led_tick ub0 (r1\<lparr>stat := (stat r1)\<lparr>remain_tick := 1\<rparr>\<rparr>))"
    by (simp only: t4)
  finally show ?thesis
    by (subst (asm) led_tick_expire)
       (simp_all add: r1_def expiry_demo_nth zero_stat_def LED_MODE_OFF_def LED_MODE_ON_def)
qed

text \<open>
  C2, as the handler behaves. A record is configured with \<open>duration_ms = 500\<close> (poll
  period 100), in any mode. The mode stays as configured through tick 4 and is OFF after
  tick 5, which clears both countdowns, leaves the rest of the status (the brightness
  too) as tick 4 left it and makes no brightness call. Tick 6 dispatches OFF: state off,
  brightness 0, brightness callback called with 0. From then on the record stays OFF at
  brightness 0 and no tick calls its brightness callback.
\<close>

theorem lifetime_500_expiry:
  assumes "i < LED_NUM" "length g = LED_NUM" "set_percent_cb (g ! i) \<noteq> None"
    and "duration_ms c = 500" and "g0 = snd (lite_led_write i (Some c) g)"
  shows "(\<forall>n<5. mode (cfg (ticks ub n g0 ! i)) = cfg_mode c) \<and>
         mode (cfg (ticks ub 5 g0 ! i)) = LED_MODE_OFF \<and>
         stat (ticks ub 5 g0 ! i)
           = (stat (ticks ub 4 g0 ! i))\<lparr>remain_tick := 0, next_tick := 0\<rparr> \<and>
         percent_calls i (calls_at ub 5 g0) = [] \<and>
         percent (stat (ticks ub 6 g0 ! i)) = 0 \<and>
         state (stat (ticks ub 6 g0 ! i)) = LED_STATE_OFF \<and>
         percent_calls i (calls_at ub 6 g0) = [0] \<and>
         (\<forall>n\<ge>6. mode (cfg (ticks ub n g0 ! i)) = LED_MODE_OFF \<and>
                percent (stat (ticks ub n g0 ! i)) = 0) \<and>
         (\<forall>n>6. percent_calls i (calls_at ub n g0) = [])"
proof -
  have len: "length g0 = LED_NUM"
    using assms by (simp add: length_write)
  have cb0: "set_percent_cb (g0 ! i) \<noteq> None" and m0: "mode (cfg (g0 ! i)) = cfg_mode c"
    and rem0: "remain_tick (stat (g0 ! i)) = 5"
    using assms by (simp_all add: write_stored LED_POLL_PERIOD_MS_def)
  have count: "remain_tick (stat (ticks ub k g0 ! i)) = Suc (4 - k) \<and>
         cfg (ticks ub k g0 ! i) = cfg (g0 ! i) \<and>
         set_percent_cb (ticks ub k g0 ! i) = set_percent_cb (g0 ! i)" if "k \<le> 4" for k
    using that assms(1) len cb0 rem0 by (intro ticks_countdown) simp_all
  have before5: "\<forall>n<5. mode (cfg (ticks ub n g0 ! i)) = cfg_mode c"
    using count m0 by simp
  \<comment> \<open>the fifth tick takes the countdown from 1 to 0\<close>
  have t5: "ticks ub 5 g0 = fst (lite_led_poll_handle ub (ticks ub 4 g0))"
    and t6: "ticks ub 6 g0 = fst (lite_led_poll_handle ub (ticks ub 5 g0))"
    by (simp_all add: eval_nat_numeral)
  have l4: "length (ticks ub 4 g0) = LED_NUM" and l5: "length (ticks ub 5 g0) = LED_NUM"
    and l6: "length (ticks ub 6 g0) = LED_NUM"
    by (simp_all add: length_ticks len)
  have c4: "set_percent_cb (ticks ub 4 g0 ! i) \<noteq> None" "remain_tick (stat (ticks ub 4 g0 ! i)) = Suc 0"
    using count[of 4] cb0 by simp_all
  have r5: "ticks ub 5 g0 ! i
           = (ticks ub 4 g0 ! i)\<lparr>cfg := (cfg (ticks ub 4 g0 ! i))\<lparr>mode := LED_MODE_OFF\<rparr>,
                 stat := (stat (ticks ub 4 g0 ! i))\<lparr>remain_tick := 0, next_tick := 0\<rparr>\<rparr>"
    unfolding t5 using assms(1) l4 c4 by (rule tick_expire(1))
  have calls5: "percent_calls i (calls_at ub 5 g0) = []"
    using tick_expire(2)[OF assms(1) l4 c4, of ub] by (simp add: calls_at_def)
  \<comment> \<open>the sixth tick dispatches the OFF mode\<close>
  have c5: "set_percent_cb (ticks ub 5 g0 ! i) \<noteq> None" "remain_tick (stat (ticks ub 5 g0 ! i)) = 0"
    "next_tick (stat (ticks ub 5 g0 ! i)) = 0" "mode (cfg (ticks ub 5 g0 ! i)) = LED_MODE_OFF"
    using c4 by (simp_all add: r5)
  have r6: "ticks ub 6 g0 ! i
           = (ticks ub 5 g0 ! i)\<lparr>stat := (stat (ticks ub 5 g0 ! i))\<lparr>state := LED_STATE_OFF,
                 percent := LED_MIN_BRIGHTNESS, next_tick := LED_BLOCK_FOREVER\<rparr>\<rparr>"
    unfolding t6 using assms(1) l5 c5 by (rule tick_off(1))
  have calls6: "percent_calls i (calls_at ub 6 g0) = [0]"
    using tick_off(2)[OF assms(1) l5 c5, of ub] by (simp add: calls_at_def LED_MIN_BRIGHTNESS_def)
  \<comment> \<open>from then on the record is blocked\<close>
  have c6: "remain_tick (stat (ticks ub 6 g0 ! i)) = 0"
    "next_tick (stat (ticks ub 6 g0 ! i)) = LED_BLOCK_FOREVER"
    using c5 by (simp_all add: r6)
  have later: "ticks ub (m + 6) g0 ! i = ticks ub 6 g0 ! i" for m
    unfolding ticks_add using assms(1) l6 c6 by (rule ticks_idle)
  have v6: "mode (cfg (ticks ub 6 g0 ! i)) = LED_MODE_OFF" "percent (stat (ticks ub 6 g0 ! i)) = 0"
    "state (stat (ticks ub 6 g0 ! i)) = LED_STATE_OFF"
    using c5 by (simp_all add: r6 LED_MIN_BRIGHTNESS_def)
  have after: "mode (cfg (ticks ub n g0 ! i)) = LED_MODE_OFF \<and> percent (stat (ticks ub n g0 ! i)) = 0"
    if "6 \<le> n" for n
    using later[of "n - 6"] that v6 by simp
  have calls_later: "percent_calls i (calls_at ub n g0) = []" if "6 < n" for n
  proof -
    have n: "n - 1 = (n - 7) + 6" using that by simp
    have "remain_tick (stat (ticks ub (n - 1) g0 ! i)) = 0"
      "next_tick (stat (ticks ub (n - 1) g0 ! i)) = LED_BLOCK_FOREVER"
      unfolding n later by (rule c6)+
    then show ?thesis
      unfolding calls_at_def using assms(1) by (intro tick_idle(2)) (simp_all add: length_ticks len)
  qed
  have s5: "stat (ticks ub 5 g0 ! i)
           = (stat (ticks ub 4 g0 ! i))\<lparr>remain_tick := 0, next_tick := 0\<rparr>"
    by (simp add: r5)
  show ?thesis
    using before5 c5(4) s5 calls5 v6(2,3) calls6 after calls_later by blast
qed

theorem lifetime_500_expiry_witness:
  "1 < LED_NUM \<and> length slot1_cb = LED_NUM \<and> set_percent_cb (slot1_cb ! 1) \<noteq> None \<and>
   duration_ms expiry_cfg = 500 \<and>
   mode (cfg (ticks ub0 4 expiry_demo ! 1)) = LED_MODE_ON \<and>
   mode (cfg (ticks ub0 5 expiry_demo ! 1)) = LED_MODE_OFF \<and>
   percent_calls 1 (calls_at ub0 5 expiry_demo) = [] \<and>
   percent (stat (ticks ub0 6 expiry_demo ! 1)) = 0 \<and>
   percent_calls 1 (calls_at ub0 6 expiry_demo) = [0] \<and>
   percent (stat (ticks ub0 9 expiry_demo ! 1)) = 0 \<and>
   percent_calls 1 (calls_at ub0 9 expiry_demo) = []"
proof -
  have d: "duration_ms expiry_cfg = 500" and m: "cfg_mode expiry_cfg = LED_MODE_ON"
    by (simp_all add: expiry_cfg_def)
  from lifetime_500_expiry [OF slot1_facts(1) slot1_cb_facts(1,2) d expiry_demo_def, of ub0]
  show ?thesis using slot1_facts(1) slot1_cb_facts(1,2) d m by simp
qed

text \<open>
  C2 as stated has brightness 0 right after tick 5. For a record switched ON with
  a 500 ms lifetime and an expiry callback registered, tick 5 leaves the mode OFF and the
  brightness at 100; the \<open>dur_timeout\<close> flag is not set and the tick calls no expiry
  callback.
\<close>

theorem expiry_brightness_counterexample:
  "dur_timeout_cb (expiry_demo ! 1) = Some 2 \<and>
   mode (cfg (ticks ub0 5 expiry_demo ! 1)) = LED_MODE_OFF \<and>
   percent (stat (ticks ub0 5 expiry_demo ! 1)) = 100 \<and>
   \<not> dur_timeout (stat (ticks ub0 5 expiry_demo ! 1)) \<and>
   expiry_calls 1 (calls_at ub0 5 expiry_demo) = 0"
proof -
  have np: "\<not> reads_peer (expiry_demo ! 1)"
    by (simp add: reads_peer_def expiry_demo_nth LED_MODE_ON_def LED_MODE_ALTERNATE_def)
  have len: "length expiry_demo = LED_NUM"
    by (simp add: expiry_demo_def length_write slot1_cb_facts)
  have nth: "ticks ub0 5 expiry_demo ! 1 = led_ticks ub0 5 (expiry_demo ! 1)"
    using slot1_facts(1) len np by (rule ticks_nth_alone)
  show ?thesis
    unfolding nth expiry_demo_ticks
    by (simp add: expiry_demo_nth calls_at_def expiry_calls_poll zero_stat_def)
qed

section \<open>BLINK with a lifetime\<close>

text \<open>
  C5 as stated puts no condition on the lifetime. With the blink configuration of C5 and
  \<open>duration_ms = 500\<close> the lifetime ends on tick 5: tick 6, which C5 has idle,
  dispatches OFF and calls the brightness callback with 0, and tick 11, which C5 has
  calling it with 100, makes no call.
\<close>

theorem blink_lifetime_500_counterexample:
  "set_percent_cb (slot1 ! 1) \<noteq> None \<and> cfg_mode blink_500_cfg = LED_MODE_BLINK \<and>
   on_ms blink_500_cfg = 200 \<and> off_ms blink_500_cfg = 800 \<and>
   percent_calls 1 (calls_at ub0 6 blink_500_demo) = [0] \<and>
   percent_calls 1 (calls_at ub0 11 blink_500_demo) = []"
proof -
  let ?g = blink_500_demo
  note i = slot1_facts(1)
  have len: "length ?g = LED_NUM"
    by (simp add: blink_500_demo_def length_write slot1_facts(2))
  have c: "cfg_mode blink_500_cfg = LED_MODE_BLINK" "on_ms blink_500_cfg = 200"
    "off_ms blink_500_cfg = 800"
    by (simp_all add: blink_500_cfg_def blink_cfg_def)
  have cb0: "set_percent_cb (?g ! 1) \<noteq> None"
    unfolding blink_500_demo_def write_stored(4)[OF i slot1_facts(2)] by (rule slot1_facts(3))
  have rem0: "remain_tick (stat (?g ! 1)) = 4 + Suc 0"
    unfolding blink_500_demo_def write_stored(3)[OF i slot1_facts(2)]
    by (simp add: blink_500_cfg_def blink_cfg_def LED_POLL_PERIOD_MS_def)
  \<comment> \<open>ticks 1 to 4 count the lifetime down to 1, tick 5 ends it\<close>
  have c4: "set_percent_cb (ticks ub0 4 ?g ! 1) \<noteq> None"
    "remain_tick (stat (ticks ub0 4 ?g ! 1)) = Suc 0"
    using ticks_countdown[OF i len cb0 rem0, of ub0] cb0 by simp_all
  have t5: "ticks ub0 5 ?g = fst (lite_led_poll_handle ub0 (ticks ub0 4 ?g))"
    and t6: "ticks ub0 6 ?g = fst (lite_led_poll_handle ub0 (ticks ub0 5 ?g))"
    by (simp_all add: ticks_numeral)
  have l4: "length (ticks ub0 4 ?g) = LED_NUM" and l5: "length (ticks ub0 5 ?g) = LED_NUM"
    and l6: "length (ticks ub0 6 ?g) = LED_NUM"
    by (simp_all add: length_ticks len)
  have r5: "ticks ub0 5 ?g ! 1
           = (ticks ub0 4 ?g ! 1)\<lparr>cfg := (cfg (ticks ub0 4 ?g ! 1))\<lparr>mode := LED_MODE_OFF\<rparr>,
                 stat := (stat (ticks ub0 4 ?g ! 1))\<lparr>remain_tick := 0, next_tick := 0\<rparr>\<rparr>"
    unfolding t5 using i l4 c4 by (rule tick_expire(1))
  \<comment> \<open>tick 6 dispatches OFF and blocks the record\<close>
  have c5: "set_percent_cb (ticks ub0 5 ?g ! 1) \<noteq> None"
    "remain_tick (stat (ticks ub0 5 ?g ! 1)) = 0"
    "next_tick (stat (ticks ub0 5 ?g ! 1)) = 0" "mode (cfg (ticks ub0 5 ?g ! 1)) = LED_MODE_OFF"
    unfolding r5 using c4 by simp_all
  have r6: "ticks ub0 6 ?g ! 1
           = (ticks ub0 5 ?g ! 1)\<lparr>stat := (stat (ticks ub0 5 ?g ! 1))\<lparr>state := LED_STATE_OFF,
                 percent := LED_MIN_BRIGHTNESS, next_tick := LED_BLOCK_FOREVER\<rparr>\<rparr>"
    unfolding t6 using i l5 c5 by (rule tick_off(1))
  have calls6: "percent_calls 1 (calls_at ub0 6 ?g) = [0]"
    using tick_off(2)[OF i l5 c5, of ub0] by (simp add: calls_at_def LED_MIN_BRIGHTNESS_def)
  have c6: "remain_tick (stat (ticks ub0 6 ?g ! 1)) = 0"
    "next_tick (stat (ticks ub0 6 ?g ! 1)) = LED_BLOCK_FOREVER"
    unfolding r6 using c5 by simp_all
  have t10: "ticks ub0 10 ?g ! 1 = ticks ub0 6 ?g ! 1"
    using ticks_idle[OF i l6 c6, of ub0 4] ticks_add[of ub0 4 6 ?g] by simp
  have l10: "length (ticks ub0 10 ?g) = LED_NUM"
    by (simp add: length_ticks len)
  have calls11: "percent_calls 1 (calls_at ub0 11 ?g) = []"
    using tick_idle(2)[OF i l10 c6[folded t10], of ub0] by (simp add: calls_at_def)
  show ?thesis using slot1_facts(3) c calls6 calls11 by blast
qed

section \<open>The brightness bound\<close>

lemma percent_ok_update:
  "percent_ok g \<Longrightarrow> percent (stat led) \<le> LED_MAX_BRIGHTNESS \<Longrightarrow> percent_ok (g[i := led])"
  unfolding percent_ok_def list_all_iff
  using set_update_subset_insert[of g i led] by (auto simp: LED_MIN_BRIGHTNESS_def)

lemma percent_ok_nth:
  "percent_ok g \<Longrightarrow> i < LED_NUM \<Longrightarrow> percent (stat (g ! i)) \<le> LED_MAX_BRIGHTNESS"
  unfolding percent_ok_def list_all_iff by simp

lemma percent_ok_start: "percent_ok g_led_list_init"
  by (simp add: percent_ok_def g_led_list_init_def list_all_iff zero_dev_def zero_stat_def
      LED_MIN_BRIGHTNESS_def)

lemma percent_ok_init: "percent_ok g \<Longrightarrow> percent_ok (snd (lite_led_init i cb g))"
  by (simp add: lite_led_init_def percent_ok_update zero_dev_def zero_stat_def)

lemma write_switch_percent:
  "percent (stat led) = 0 \<Longrightarrow> percent (stat (snd (write_switch i c led))) \<le> LED_MAX_BRIGHTNESS"
  by (simp add: write_switch_def Let_def LED_MAX_BRIGHTNESS_def LED_MIN_BRIGHTNESS_def)

lemma percent_ok_write: "percent_ok g \<Longrightarrow> percent_ok (snd (lite_led_write i c g))"
proof (cases c)
  case None
  then show "percent_ok g \<Longrightarrow> ?thesis" by (simp add: lite_led_write_def)
next
  case (Some cf)
  have "percent (stat (write_convert cf (g ! i))) = 0"
    by (simp add: write_convert_def Let_def zero_stat_def)
  from write_switch_percent[OF this, of i cf]
  show "percent_ok g \<Longrightarrow> ?thesis"
    by (simp add: lite_led_write_def Some percent_ok_update split_beta)
qed

lemma mode_handle_percent:
  assumes "percent (stat led) \<le> LED_MAX_BRIGHTNESS"
  shows "percent (stat (mode_handle ub g i led)) \<le> LED_MAX_BRIGHTNESS"
  using assms by (simp add: mode_handle_def Let_def LED_MIN_BRIGHTNESS_def LED_MAX_BRIGHTNESS_def)

lemma poll_body_percent:
  assumes "percent (stat (g ! i)) \<le> LED_MAX_BRIGHTNESS"
  shows "percent (stat (fst (poll_body ub g i))) \<le> LED_MAX_BRIGHTNESS"
  using assms by (simp add: poll_body_def Let_def mode_handle_percent)

lemma percent_ok_poll_led:
  assumes "percent_ok (fst s)" "i < LED_NUM"
  shows "percent_ok (fst (poll_led ub i s))"
proof -
  obtain g tr where s: "s = (g, tr)" by (cases s)
  have "percent (stat (g ! i)) \<le> LED_MAX_BRIGHTNESS"
    using assms by (simp add: s percent_ok_nth)
  from poll_body_percent[OF this, of ub] show ?thesis
    using assms(1) by (simp add: s poll_led_def percent_ok_update split_beta)
qed

lemma percent_ok_fold:
  "percent_ok (fst s) \<Longrightarrow> \<forall>j\<in>set js. j < LED_NUM \<Longrightarrow> percent_ok (fst (fold (poll_led ub) js s))"
  by (induction js arbitrary: s) (simp_all add: percent_ok_poll_led)

lemma percent_ok_poll: "percent_ok g \<Longrightarrow> percent_ok (fst (lite_led_poll_handle ub g))"
  unfolding lite_led_poll_handle_def by (rule percent_ok_fold) simp_all

text \<open>
  C8. After every sequence of Initialize, Configure and tick-handler calls, the
  brightness of every record is within \<open>[LED_MIN_BRIGHTNESS, LED_MAX_BRIGHTNESS]\<close>,
  that is \<open>[0, 100]\<close>: the bound holds at program start and each operation preserves it.
\<close>

theorem brightness_within_bounds:
  "reachable ub g \<Longrightarrow> i < LED_NUM \<Longrightarrow>
     LED_MIN_BRIGHTNESS \<le> percent (stat (g ! i)) \<and> percent (stat (g ! i)) \<le> LED_MAX_BRIGHTNESS"
proof -
  assume r: "reachable ub g" and i: "i < LED_NUM"
  from r have "percent_ok g"
    by (induction rule: reachable.induct)
       (simp_all add: percent_ok_start percent_ok_init percent_ok_write percent_ok_poll)
  then show ?thesis using i by (simp add: percent_ok_nth LED_MIN_BRIGHTNESS_def)
qed

theorem brightness_within_bounds_witness:
  "reachable ub0 (ticks ub0 1 blink_demo) \<and> 1 < LED_NUM \<and>
   LED_MIN_BRIGHTNESS \<le> percent (stat (ticks ub0 1 blink_demo ! 1)) \<and>
   percent (stat (ticks ub0 1 blink_demo ! 1)) \<le> LED_MAX_BRIGHTNESS"
proof -
  have "reachable ub0 slot1"
    unfolding slot1_def by (intro reachable.intros)
  then have "reachable ub0 blink_demo"
    unfolding blink_demo_def by (intro reachable.intros)
  then have r: "reachable ub0 (ticks ub0 1 blink_demo)"
    by (simp add: reachable.after_poll)
  from brightness_within_bounds [OF r slot1_facts(1)] show ?thesis
    using r slot1_facts(1) by simp
qed

section \<open>Rejected configurations\<close>

lemma write_rejected:
  assumes "i < LED_MAX" "i < length g"
    and "LED_MODE_ALTERNATE < cfg_mode c \<or> cfg_mode c = LED_MODE_ALTERNATE \<and> cfg_alter_id c = i"
  shows "lite_led_write i (Some c) g
           = (if cfg_mode c = LED_MODE_ALTERNATE then LED_ERROR_ALTERNATE_ID
              else LED_ERROR_MODE_INVALID,
              g[i := write_convert c (g ! i)])"
  using assms by (auto simp: lite_led_write_def write_switch_def led_consts)

lemma blink_demo_tick1:
  "stat (ticks ub0 1 blink_demo ! 1)
     = zero_stat\<lparr>next_tick := 2, percent := 100, state := LED_STATE_ON\<rparr> \<and>
   mode (cfg (ticks ub0 1 blink_demo ! 1)) = LED_MODE_BLINK \<and>
   on_tick (cfg (ticks ub0 1 blink_demo ! 1)) = 2 \<and>
   off_tick (cfg (ticks ub0 1 blink_demo ! 1)) = 8"
proof -
  have "blink_demo ! 1 = write_convert blink_cfg (slot1 ! 1)"
    unfolding blink_demo_def using slot1_facts(1,2)
    by (intro write_blink_nth) (simp_all add: blink_cfg_def)
  then have r: "blink_demo ! Suc 0 = write_convert blink_cfg (slot1 ! Suc 0)"
    by simp
  have cb: "set_percent_cb (slot1 ! Suc 0) \<noteq> None"
    using slot1_facts(3) by simp
  have np: "\<not> reads_peer (blink_demo ! 1)"
    by (simp add: r reads_peer_def write_convert_def blink_cfg_def led_consts)
  have len: "length blink_demo = LED_NUM"
    by (simp add: blink_demo_def length_write slot1_facts)
  have nth: "ticks ub0 1 blink_demo ! 1 = led_ticks ub0 1 (blink_demo ! 1)"
    using slot1_facts(1) len np by (rule ticks_nth_alone)
  have "led_tick ub0 (blink_demo ! 1)
          = (let l = mode_handle ub0 [blink_demo ! 1] 0
                       ((blink_demo ! 1)\<lparr>stat := (stat (blink_demo ! 1))
                          \<lparr>remain_tick := remain_tick (stat (blink_demo ! 1)) - 1,
                           next_tick := 0\<rparr>\<rparr>)
             in (l, Some (percent (stat l))))"
    using cb
    by (intro led_tick_dispatch)
       (simp_all add: r write_convert_def Let_def zero_stat_def blink_cfg_def led_consts)
  then show ?thesis
    unfolding nth
    by (simp add: r write_convert_def Let_def zero_stat_def blink_cfg_def mode_handle_blink
        led_consts)
qed

text \<open>
  C1 says that a rejected Configure returns its error and leaves the slot as it was. The
  error is returned, but the slot is overwritten first. Slot 1 is blinking and one tick
  has run (mode BLINK, \<open>on_tick = 2\<close>, brightness 100). Writing the unrecognised mode 7
  returns \<open>LED_ERROR_MODE_INVALID\<close> and leaves mode 7, \<open>on_tick = 0\<close> and brightness 0
  in the slot; writing ALTERNATE with peer 1 returns \<open>LED_ERROR_ALTERNATE_ID\<close> and
  leaves mode ALTERNATE with peer 1 and brightness 0 in the slot.
\<close>

theorem write_rejected_overwrites:
  "fst (lite_led_write 1 (Some bad_mode_cfg) (ticks ub0 1 blink_demo)) = LED_ERROR_MODE_INVALID \<and>
   mode (cfg (ticks ub0 1 blink_demo ! 1)) = LED_MODE_BLINK \<and>
   mode (cfg (snd (lite_led_write 1 (Some bad_mode_cfg) (ticks ub0 1 blink_demo)) ! 1)) = 7 \<and>
   on_tick (cfg (ticks ub0 1 blink_demo ! 1)) = 2 \<and>
   on_tick (cfg (snd (lite_led_write 1 (Some bad_mode_cfg) (ticks ub0 1 blink_demo)) ! 1)) = 0 \<and>
   percent (stat (ticks ub0 1 blink_demo ! 1)) = 100 \<and>
   percent (stat (snd (lite_led_write 1 (Some bad_mode_cfg) (ticks ub0 1 blink_demo)) ! 1)) = 0 \<and>
   fst (lite_led_write 1 (Some self_alt_cfg) (ticks ub0 1 blink_demo)) = LED_ERROR_ALTERNATE_ID \<and>
   mode (cfg (snd (lite_led_write 1 (Some self_alt_cfg) (ticks ub0 1 blink_demo)) ! 1))
     = LED_MODE_ALTERNATE \<and>
   alter_id (cfg (snd (lite_led_write 1 (Some self_alt_cfg) (ticks ub0 1 blink_demo)) ! 1)) = 1 \<and>
   percent (stat (snd (lite_led_write 1 (Some self_alt_cfg) (ticks ub0 1 blink_demo)) ! 1)) = 0"
proof -
  have len: "1 < length (ticks ub0 1 blink_demo)" and i: "(1::nat) < LED_MAX"
    using slot1_facts(1,2) by (simp_all add: length_poll blink_demo_def length_write LED_NUM_def)
  have a: "lite_led_write 1 (Some bad_mode_cfg) (ticks ub0 1 blink_demo)
             = (LED_ERROR_MODE_INVALID,
                (ticks ub0 1 blink_demo)[1 := write_convert bad_mode_cfg (ticks ub0 1 blink_demo ! 1)])"
    by (subst write_rejected[OF i len]) (simp_all add: bad_mode_cfg_def led_consts)
  have b: "lite_led_write 1 (Some self_alt_cfg) (ticks ub0 1 blink_demo)
             = (LED_ERROR_ALTERNATE_ID,
                (ticks ub0 1 blink_demo)[1 := write_convert self_alt_cfg (ticks ub0 1 blink_demo ! 1)])"
    by (subst write_rejected[OF i len]) (simp_all add: self_alt_cfg_def led_consts)
  have c: "(ticks ub0 1 blink_demo)[1 := x] ! 1 = x" for x
    using len by simp
  show ?thesis
    unfolding a b fst_conv snd_conv c using blink_demo_tick1
    by (simp add: write_convert_def bad_mode_cfg_def self_alt_cfg_def Let_def zero_stat_def
        LED_POLL_PERIOD_MS_def)
qed

section \<open>The phase step of a short fade\<close>

lemma write_phase_step_guard_dead:
  "write_phase_step c = fdiv (Fin (pi * real LED_POLL_PERIOD_MS)) (real (fade_ms c))"
proof (cases "fade_ms c = 0")
  case True
  then show ?thesis
    by (simp add: write_phase_step_def Let_def LED_POLL_PERIOD_MS_def)
next
  case False
  then have "0 < pi * 100 / real (fade_ms c)"
    by simp
  then have "\<not> pi * 100 / real (fade_ms c) \<le> 0"
    by linarith
  then show ?thesis using False
    by (simp add: write_phase_step_def Let_def LED_POLL_PERIOD_MS_def)
qed

lemma write_fade_nth:
  assumes "i < LED_NUM" "length g = LED_NUM" "cfg_mode c = LED_MODE_BREATH"
  shows "snd (lite_led_write i (Some c) g) ! i
           = (write_convert c (g ! i))\<lparr>stat := (stat (write_convert c (g ! i)))
                \<lparr>percent := LED_MIN_BRIGHTNESS, phase := Fin 0,
                 phase_step := write_phase_step c\<rparr>\<rparr>"
  using assms by (simp add: write_nth write_switch_def Let_def led_consts)

lemma lut_zero: "lite_led_get_percent_from_phase ub (Fin 0) = 0"
  by (simp add: lite_led_get_percent_from_phase_def float_to_size_t_def Let_def
      g_led_sin_table_def LED_TABLE_SIZE_def)

lemma mode_handle_breath:
  "mode (cfg led) = LED_MODE_BREATH \<Longrightarrow>
   mode_handle ub g i led =
     (let ph = fadd (phase (stat led)) (phase_step (stat led));
          ph = (if fge ph (Fin (2 * pi)) then fsub ph (Fin (2 * pi)) else ph);
          p = lite_led_get_percent_from_phase ub ph
      in led\<lparr>stat := (stat led)\<lparr>phase := ph,
                 percent := (if p \<ge> LED_MAX_BRIGHTNESS then LED_MAX_BRIGHTNESS else p)\<rparr>\<rparr>)"
  by (simp add: mode_handle_def Let_def led_consts)

lemma stall_demo_nth:
  "stall_demo ! Suc 0 = (slot1 ! Suc 0)\<lparr>
      cfg := \<lparr>mode = LED_MODE_BREATH, alter_id = 0, on_tick = 0, off_tick = 0, fade_tick = 0,
              alternate_tick = 0, duration_tick = 0\<rparr>,
      stat := zero_stat\<lparr>phase_step := Fin (2 * pi)\<rparr>\<rparr>"
proof -
  have "stall_demo ! 1
           = (write_convert stall_cfg (slot1 ! 1))\<lparr>stat := (stat (write_convert stall_cfg (slot1 ! 1)))
                \<lparr>percent := LED_MIN_BRIGHTNESS, phase := Fin 0,
                 phase_step := write_phase_step stall_cfg\<rparr>\<rparr>"
    unfolding stall_demo_def using slot1_facts(1,2)
    by (intro write_fade_nth) (simp_all add: stall_cfg_def)
  then show ?thesis
    by (simp add: write_convert_def write_phase_step_guard_dead stall_cfg_def zero_stat_def
        Let_def LED_POLL_PERIOD_MS_def LED_MIN_BRIGHTNESS_def)
qed

lemma stall_demo_tick:
  "led_tick ub (stall_demo ! Suc 0) = (stall_demo ! Suc 0, Some 0)"
proof -
  have cb: "set_percent_cb (slot1 ! Suc 0) \<noteq> None"
    using slot1_facts(3) by simp
  have "led_tick ub (stall_demo ! Suc 0)
          = (let l = mode_handle ub [stall_demo ! Suc 0] 0
                       ((stall_demo ! Suc 0)\<lparr>stat := (stat (stall_demo ! Suc 0))
                          \<lparr>remain_tick := remain_tick (stat (stall_demo ! Suc 0)) - 1,
                           next_tick := 0\<rparr>\<rparr>)
             in (l, Some (percent (stat l))))"
    using cb by (intro led_tick_dispatch) (simp_all add: stall_demo_nth zero_stat_def)
  then show ?thesis
    by (simp add: stall_demo_nth mode_handle_breath Let_def zero_stat_def fge_def fsub_def
        lut_zero LED_MAX_BRIGHTNESS_def)
qed

lemma stall_demo_ticks: "led_ticks ub n (stall_demo ! Suc 0) = stall_demo ! Suc 0"
  by (induction n) (simp_all add: stall_demo_tick)

text \<open>
  C4 says that a fade shorter than the poll period gets the minimal phase step, so that
  nothing is divided by zero and the phase advances on every tick. The guard
  \<open>phase_step <= 0.0f\<close> tests the quotient, which is never zero or negative, so the
  replacement never happens (\<open>write_phase_step_guard_dead\<close>). With \<open>fade_ms = 50\<close> the
  stored step is \<open>2 * pi\<close>, not \<open>pi / 100\<close>, and in BREATH mode every tick wraps the
  phase back to 0: phase and brightness stay 0 for ever. With \<open>fade_ms = 0\<close> the
  division by zero is carried out and the stored step is infinite.
\<close>

theorem fade_guard_never_fires:
  "phase_step (stat (stall_demo ! 1)) = Fin (2 * pi) \<and>
   phase_step (stat (stall_demo ! 1)) \<noteq> Fin (pi / real LED_MAX_BRIGHTNESS) \<and>
   (\<forall>n. phase (stat (ticks ub n stall_demo ! 1)) = Fin 0 \<and>
        percent (stat (ticks ub n stall_demo ! 1)) = 0) \<and>
   phase_step (stat (div0_demo ! 1)) = PInf"
proof -
  have np: "\<not> reads_peer (stall_demo ! 1)"
    by (simp add: reads_peer_def stall_demo_nth led_consts)
  have len: "length stall_demo = LED_NUM"
    by (simp add: stall_demo_def length_write slot1_facts)
  have "ticks ub n stall_demo ! 1 = led_ticks ub n (stall_demo ! 1)" for n
    using slot1_facts(1) len np by (rule ticks_nth_alone)
  then have stall: "ticks ub n stall_demo ! 1 = stall_demo ! Suc 0" for n
    by (simp add: stall_demo_ticks)
  have "div0_demo ! 1
           = (write_convert (stall_cfg\<lparr>fade_ms := 0\<rparr>) (slot1 ! 1))
               \<lparr>stat := (stat (write_convert (stall_cfg\<lparr>fade_ms := 0\<rparr>) (slot1 ! 1)))
                \<lparr>percent := LED_MIN_BRIGHTNESS, phase := Fin 0,
                 phase_step := write_phase_step (stall_cfg\<lparr>fade_ms := 0\<rparr>)\<rparr>\<rparr>"
    unfolding div0_demo_def using slot1_facts(1,2)
    by (intro write_fade_nth) (simp_all add: stall_cfg_def)
  then have d: "phase_step (stat (div0_demo ! 1)) = PInf"
    by (simp add: write_phase_step_guard_dead LED_POLL_PERIOD_MS_def)
  show ?thesis
    unfolding stall using d by (simp add: stall_demo_nth zero_stat_def LED_MAX_BRIGHTNESS_def)
qed

section \<open>BREATH\<close>

lemma table_le_100: "list_all (\<lambda>x. x \<le> 100) g_led_sin_table"
  by (simp add: g_led_sin_table_def)

lemma table_nth_le_100: "i \<le> 128 \<Longrightarrow> g_led_sin_table ! i \<le> 100"
  using table_le_100 by (simp add: list_all_length g_led_sin_table_def)

lemma lut_index:
  assumes "0 \<le> q" "q < 129"
  shows "lite_led_get_percent_from_phase ub (Fin (q * (2 * pi / 128)))
           = g_led_sin_table ! nat \<lfloor>q\<rfloor>"
proof -
  have "nat \<lfloor>q\<rfloor> \<le> 128"
    using assms by linarith
  then show ?thesis
    using assms
    by (simp add: lite_led_get_percent_from_phase_def float_to_size_t_def Let_def LED_TABLE_SIZE_def)
qed

lemma breath_phase_lut:
  assumes "k < 20"
  shows "lite_led_get_percent_from_phase ub (Fin (real k * pi / 10))
           = g_led_sin_table ! (k * 32 div 5)"
proof -
  have "Fin (real k * pi / 10) = Fin ((real (k * 32) / real 5) * (2 * pi / 128))"
    by simp
  also have "lite_led_get_percent_from_phase ub \<dots> = g_led_sin_table ! nat \<lfloor>real (k * 32) / real 5\<rfloor>"
    using assms by (intro lut_index) simp_all
  also have "nat \<lfloor>real (k * 32) / real 5\<rfloor> = k * 32 div 5"
    by (simp only: floor_divide_of_nat_eq nat_int)
  finally show ?thesis .
qed

lemma breath_wrap:
  assumes "k < 20"
  shows "(if fge (fadd (Fin (real k * pi / 10)) (Fin (pi / 10))) (Fin (2 * pi))
          then fsub (fadd (Fin (real k * pi / 10)) (Fin (pi / 10))) (Fin (2 * pi))
          else fadd (Fin (real k * pi / 10)) (Fin (pi / 10)))
         = Fin (real (Suc k mod 20) * pi / 10)"
proof (cases "k = 19")
  case True
  then show ?thesis by (simp add: fge_def fsub_def)
next
  case False
  then have k: "Suc k < 20" using assms by simp
  have e: "fadd (Fin (real k * pi / 10)) (Fin (pi / 10)) = Fin (real (Suc k) * pi / 10)"
    by (simp add: field_simps)
  have "real (Suc k) * pi < 20 * pi"
    using k by (intro mult_strict_right_mono) simp_all
  then have ng: "\<not> fge (Fin (real (Suc k) * pi / 10)) (Fin (2 * pi))"
    by (simp add: fge_def)
  have m: "Suc k mod 20 = Suc k"
    using k by simp
  show ?thesis
    unfolding e m using ng by (simp only: if_False)
qed

lemma breath_tick:
  assumes "set_percent_cb led \<noteq> None" "mode (cfg led) = LED_MODE_BREATH"
    and "remain_tick (stat led) = 0" "next_tick (stat led) = 0"
    and "phase_step (stat led) = Fin (pi / 10)" "phase (stat led) = Fin (real k * pi / 10)"
    and "k < 20"
  shows "led_tick ub led
           = (led\<lparr>stat := (stat led)\<lparr>phase := Fin (real (Suc k mod 20) * pi / 10),
                    percent := g_led_sin_table ! (Suc k mod 20 * 32 div 5)\<rparr>\<rparr>,
              Some (g_led_sin_table ! (Suc k mod 20 * 32 div 5)))"
proof -
  let ?l = "led\<lparr>stat := (stat led)\<lparr>remain_tick := remain_tick (stat led) - 1, next_tick := 0\<rparr>\<rparr>"
  have l: "?l = led"
    using assms(3,4) by (simp add: stat_upd_id dev_upd_id)
  have k': "Suc k mod 20 < 20" by simp
  have le: "\<not> LED_MAX_BRIGHTNESS \<le> g_led_sin_table ! (Suc k mod 20 * 32 div 5)
            \<or> g_led_sin_table ! (Suc k mod 20 * 32 div 5) = LED_MAX_BRIGHTNESS"
  proof -
    have "Suc k mod 20 * 32 div 5 \<le> 128"
      using k' by linarith
    from table_nth_le_100[OF this] show ?thesis
      by (simp add: LED_MAX_BRIGHTNESS_def)
  qed
  have mh: "mode_handle ub [led] 0 led
              = led\<lparr>stat := (stat led)\<lparr>phase := Fin (real (Suc k mod 20) * pi / 10),
                    percent := g_led_sin_table ! (Suc k mod 20 * 32 div 5)\<rparr>\<rparr>"
    unfolding mode_handle_breath[OF assms(2)] Let_def assms(5,6) breath_wrap[OF assms(7)]
      breath_phase_lut[OF k']
    using le by auto
  have "led_tick ub led = (let l = mode_handle ub [led] 0 ?l in (l, Some (percent (stat l))))"
    using assms(1,3,4) by (intro led_tick_dispatch) simp_all
  also have "\<dots> = (let l = mode_handle ub [led] 0 led in (l, Some (percent (stat l))))"
    by (simp only: l)
  finally show ?thesis
    unfolding mh Let_def by simp
qed

lemma breath_ticks:
  assumes "set_percent_cb led \<noteq> None" "mode (cfg led) = LED_MODE_BREATH"
    and "remain_tick (stat led) = 0" "next_tick (stat led) = 0"
    and "phase_step (stat led) = Fin (pi / 10)" "phase (stat led) = Fin 0"
    and "percent (stat led) = 0"
  shows "led_ticks ub n led
           = led\<lparr>stat := (stat led)\<lparr>phase := Fin (real (n mod 20) * pi / 10),
                    percent := g_led_sin_table ! (n mod 20 * 32 div 5)\<rparr>\<rparr>"
proof (induction n)
  case 0
  have "stat led = (stat led)\<lparr>phase := Fin 0, percent := 0\<rparr>"
    using assms(6,7) by (cases "stat led") simp
  then show ?case
    by (simp add: g_led_sin_table_def dev_upd_id)
next
  case (Suc n)
  let ?l = "led\<lparr>stat := (stat led)\<lparr>phase := Fin (real (n mod 20) * pi / 10),
                    percent := g_led_sin_table ! (n mod 20 * 32 div 5)\<rparr>\<rparr>"
  have "led_tick ub ?l
           = (?l\<lparr>stat := (stat ?l)\<lparr>phase := Fin (real (Suc (n mod 20) mod 20) * pi / 10),
                    percent := g_led_sin_table ! (Suc (n mod 20) mod 20 * 32 div 5)\<rparr>\<rparr>,
              Some (g_led_sin_table ! (Suc (n mod 20) mod 20 * 32 div 5)))"
    using assms by (intro breath_tick) simp_all
  then show ?case
    unfolding led_ticks.simps Suc mod_Suc_eq by simp
qed

lemma upt21: "[0..<21] = [0, 1, 2, 3, 4, 5, 6, 7, 8, 9, 10, 11, 12, 13, 14, 15, 16, 17, 18, 19, 20]"
  by code_simp

lemma breath_curve_values:
  "map breath_curve [0..<21]
     = [0, 7, 16, 30, 44, 61, 77, 94, 100, 100, 100, 100, 100, 88, 72, 54, 39, 26, 13, 4, 0]"
  unfolding upt21 by (simp add: breath_curve_def g_led_sin_table_def)




lemma breath_1000:
  assumes "i < LED_NUM" "length g = LED_NUM" "set_percent_cb (g ! i) \<noteq> None"
    and "cfg_mode c = LED_MODE_BREATH" "fade_ms c = 1000" "duration_ms c < LED_POLL_PERIOD_MS"
    and "g0 = snd (lite_led_write i (Some c) g)"
  shows "percent (stat (ticks ub n g0 ! i)) = breath_curve n"
    and "phase (stat (ticks ub n g0 ! i)) = Fin (real (n mod 20) * pi / 10)"
    and "percent_calls i (calls_at ub (Suc n) g0) = [breath_curve (Suc n)]"
proof -
  define r0 where "r0 = g0 ! i"
  have r0: "r0 = (write_convert c (g ! i))\<lparr>stat := (stat (write_convert c (g ! i)))
                \<lparr>percent := LED_MIN_BRIGHTNESS, phase := Fin 0,
                 phase_step := write_phase_step c\<rparr>\<rparr>"
    unfolding r0_def assms(7) using assms(1,2,4) by (rule write_fade_nth)
  have len: "length g0 = LED_NUM"
    using assms by (simp add: length_write)
  have f: "set_percent_cb r0 \<noteq> None" "mode (cfg r0) = LED_MODE_BREATH"
    "remain_tick (stat r0) = 0" "next_tick (stat r0) = 0"
    "phase_step (stat r0) = Fin (pi / 10)" "phase (stat r0) = Fin 0" "percent (stat r0) = 0"
    using assms(3,4,5,6)
    by (simp_all add: r0 write_convert_def Let_def zero_stat_def write_phase_step_guard_dead
        LED_POLL_PERIOD_MS_def LED_MIN_BRIGHTNESS_def)
  have np: "\<not> reads_peer r0"
    by (simp add: reads_peer_def f(2) led_consts)
  have nth: "ticks ub n g0 ! i = led_ticks ub n r0" for n
    unfolding r0_def using assms(1) len np[unfolded r0_def] by (rule ticks_nth_alone)
  note closed = breath_ticks[OF f, of ub]
  show "percent (stat (ticks ub n g0 ! i)) = breath_curve n"
    unfolding nth closed by (simp add: breath_curve_def)
  show "phase (stat (ticks ub n g0 ! i)) = Fin (real (n mod 20) * pi / 10)"
    unfolding nth closed by simp
  have "led_tick ub (led_ticks ub n r0)
          = ((led_ticks ub n r0)\<lparr>stat := (stat (led_ticks ub n r0))
               \<lparr>phase := Fin (real (Suc (n mod 20) mod 20) * pi / 10),
                percent := g_led_sin_table ! (Suc (n mod 20) mod 20 * 32 div 5)\<rparr>\<rparr>,
             Some (g_led_sin_table ! (Suc (n mod 20) mod 20 * 32 div 5)))"
    unfolding closed using f by (intro breath_tick) simp_all
  then have "snd (led_tick ub (led_ticks ub n r0)) = Some (breath_curve (Suc n))"
    by (simp add: breath_curve_def mod_Suc_eq)
  then show "percent_calls i (calls_at ub (Suc n) g0) = [breath_curve (Suc n)]"
    using calls_at_alone[OF assms(1) len np[unfolded r0_def], of ub n] by (simp add: r0_def)
qed

lemma breath_cfg_facts:
  "cfg_mode breath_cfg = LED_MODE_BREATH" "fade_ms breath_cfg = 1000"
  "duration_ms breath_cfg < LED_POLL_PERIOD_MS"
  by (simp_all add: breath_cfg_def LED_POLL_PERIOD_MS_def)





section \<open>The table and the cosine\<close>

text \<open>
  C3 says that the lookup table and the formula \<open>(1 - cos(phase)) / 2 * 100\<close> agree
  within rounding on every phase the fades reach. The breath above reaches phase
  \<open>pi / 2\<close> at tick 5 with brightness 61 from the table, where the formula gives 50; at
  phase \<open>2 * pi / 3\<close> the table gives 88 and the formula 75.
\<close>

theorem table_differs_from_cosine:
  "phase (stat (ticks ub 5 breath_demo ! 1)) = Fin (pi / 2) \<and>
   percent (stat (ticks ub 5 breath_demo ! 1)) = 61 \<and>
   lite_led_get_percent_from_phase ub (Fin (pi / 2)) = 61 \<and>
   percent_from_cos (pi / 2) = 50 \<and>
   lite_led_get_percent_from_phase ub (Fin (2 * pi / 3)) = 88 \<and>
   percent_from_cos (2 * pi / 3) = 75"
proof -
  have a: "phase (stat (ticks ub 5 breath_demo ! 1)) = Fin (pi / 2)"
    unfolding breath_1000(2) [OF slot1_facts(1,2,3) breath_cfg_facts breath_demo_def]
    by simp
  have b: "percent (stat (ticks ub 5 breath_demo ! 1)) = 61"
    unfolding breath_1000(1) [OF slot1_facts(1,2,3) breath_cfg_facts breath_demo_def]
    by (simp add: breath_curve_def g_led_sin_table_def)
  have "Fin (pi / 2) = Fin (32 * (2 * pi / 128))" by simp
  also have "lite_led_get_percent_from_phase ub \<dots> = g_led_sin_table ! nat \<lfloor>32::real\<rfloor>"
    by (intro lut_index) simp_all
  finally have c: "lite_led_get_percent_from_phase ub (Fin (pi / 2)) = 61"
    by (simp add: g_led_sin_table_def)
  have "Fin (2 * pi / 3) = Fin ((128 / 3) * (2 * pi / 128))" by simp
  also have "lite_led_get_percent_from_phase ub \<dots> = g_led_sin_table ! nat \<lfloor>128 / 3 :: real\<rfloor>"
    by (intro lut_index) simp_all
  finally have d: "lite_led_get_percent_from_phase ub (Fin (2 * pi / 3)) = 88"
    by (simp add: g_led_sin_table_def)
  have e: "percent_from_cos (pi / 2) = 50" "percent_from_cos (2 * pi / 3) = 75"
    by (simp_all add: percent_from_cos_def cos_120 LED_MAX_BRIGHTNESS_def)
  show ?thesis using a b c d e by blast
qed

section \<open>ALTERNATE\<close>

lemma poll_body_blocked:
  assumes "set_percent_cb (g ! i) \<noteq> None" "remain_tick (stat (g ! i)) \<noteq> Suc 0"
    "next_tick (stat (g ! i)) = LED_BLOCK_FOREVER"
  shows "poll_body ub g i
           = ((g ! i)\<lparr>stat := (stat (g ! i))\<lparr>remain_tick := remain_tick (stat (g ! i)) - 1\<rparr>\<rparr>,
              None)"
  using assms
  by (cases "remain_tick (stat (g ! i)) = 0")
     (clarsimp simp: poll_body_def Let_def stat_upd_id dev_upd_id)+

lemma poll_body_wait:
  assumes "set_percent_cb (g ! i) \<noteq> None" "remain_tick (stat (g ! i)) \<noteq> Suc 0"
    "next_tick (stat (g ! i)) \<noteq> LED_BLOCK_FOREVER" "1 < next_tick (stat (g ! i))"
  shows "poll_body ub g i
           = ((g ! i)\<lparr>stat := (stat (g ! i))\<lparr>remain_tick := remain_tick (stat (g ! i)) - 1,
                                       next_tick := next_tick (stat (g ! i)) - 1\<rparr>\<rparr>, None)"
  using assms
  by (cases "remain_tick (stat (g ! i)) = 0")
     (clarsimp simp: poll_body_def Let_def stat_upd_id dev_upd_id)+

lemma poll_body_dispatch:
  assumes "set_percent_cb (g ! i) \<noteq> None" "remain_tick (stat (g ! i)) \<noteq> Suc 0"
    "next_tick (stat (g ! i)) \<le> 1"
  shows "poll_body ub g i
           = (let l = mode_handle ub g i
                  ((g ! i)\<lparr>stat := (stat (g ! i))\<lparr>remain_tick := remain_tick (stat (g ! i)) - 1,
                                       next_tick := 0\<rparr>\<rparr>)
              in (l, Some (percent (stat l))))"
  using assms
  by (cases "remain_tick (stat (g ! i)) = 0"; cases "next_tick (stat (g ! i)) = 0")
     (clarsimp simp: poll_body_def Let_def LED_BLOCK_FOREVER_def stat_upd_id dev_upd_id)+

lemma mode_handle_off:
  "mode (cfg led) = LED_MODE_OFF \<Longrightarrow>
   mode_handle ub g i led =
     led\<lparr>stat := (stat led)\<lparr>state := LED_STATE_OFF, percent := LED_MIN_BRIGHTNESS,
                 next_tick := LED_BLOCK_FOREVER\<rparr>\<rparr>"
  by (simp add: mode_handle_def Let_def)

lemma mode_handle_alt_driver:
  assumes "mode (cfg led) = LED_MODE_ALTERNATE" "alter_id (cfg led) < LED_NUM"
    "led_id led < alter_id (cfg led)"
  shows "mode_handle ub g i led =
     led\<lparr>stat := (stat led)\<lparr>next_tick := alternate_tick (cfg led),
                 state := lnot (state (stat led)),
                 percent := (if lnot (state (stat led)) = LED_STATE_ON then LED_MAX_BRIGHTNESS
                             else LED_MIN_BRIGHTNESS)\<rparr>\<rparr>"
  using assms by (simp add: mode_handle_def Let_def led_consts)

lemma mode_handle_alt_mirror:
  assumes "mode (cfg led) = LED_MODE_ALTERNATE" "alter_id (cfg led) < LED_NUM"
    "\<not> led_id led < alter_id (cfg led)" "alter_id (cfg led) \<noteq> i"
  shows "mode_handle ub g i led =
     led\<lparr>stat := (stat led)\<lparr>next_tick := alternate_tick (cfg led),
                 state := lnot (state (stat (g ! alter_id (cfg led)))),
                 percent := (if lnot (state (stat (g ! alter_id (cfg led)))) = LED_STATE_ON
                             then LED_MAX_BRIGHTNESS else LED_MIN_BRIGHTNESS)\<rparr>\<rparr>"
  using assms by (simp add: mode_handle_def Let_def led_consts)

lemma lnot_not_both: "\<not> (st = LED_STATE_ON \<and> lnot st = LED_STATE_ON)"
  by (cases st) simp_all

lemma pair_step:
  assumes "A < B" "B < LED_NUM" "length g = LED_NUM" "pair_inv A B (g ! A) (g ! B)"
  shows "pair_inv A B (fst (lite_led_poll_handle ub g) ! A) (fst (lite_led_poll_handle ub g) ! B) \<and>
         (percent_calls A (snd (lite_led_poll_handle ub g)) = [] \<or>
          mode (cfg (fst (lite_led_poll_handle ub g) ! A)) = LED_MODE_OFF \<or>
          state (stat (fst (lite_led_poll_handle ub g) ! A)) = lnot (state (stat (g ! A))) \<and>
          state (stat (fst (lite_led_poll_handle ub g) ! B))
            = lnot (state (stat (fst (lite_led_poll_handle ub g) ! A))) \<and>
          percent_calls B (snd (lite_led_poll_handle ub g)) \<noteq> [])"
proof -
  define a where "a = g ! A"
  define b where "b = g ! B"
  define GA where "GA = before ub A g"
  define GB where "GB = before ub B g"
  define a' where "a' = fst (lite_led_poll_handle ub g) ! A"
  define b' where "b' = fst (lite_led_poll_handle ub g) ! B"
  have AN: "A < LED_NUM" using assms(1,2) by simp
  have GA: "GA ! A = a" and GB: "GB ! B = b"
    by (simp_all add: GA_def GB_def a_def b_def before_nth_ge)
  have GBA: "GB ! A = a'"
    unfolding GB_def a'_def using assms(1,2) by (intro before_nth_lt) simp_all
  have a': "a' = fst (poll_body ub GA A)" and b': "b' = fst (poll_body ub GB B)"
    unfolding a'_def b'_def GA_def GB_def using AN assms(2,3) by (simp_all add: poll_nth)
  have ca: "percent_calls A (snd (lite_led_poll_handle ub g))
              = (case snd (poll_body ub GA A) of None \<Rightarrow> [] | Some p \<Rightarrow> [p])"
    and cb: "percent_calls B (snd (lite_led_poll_handle ub g))
              = (case snd (poll_body ub GB B) of None \<Rightarrow> [] | Some p \<Rightarrow> [p])"
    unfolding GA_def GB_def using AN assms(2) by (simp_all add: percent_calls_poll)
  have inv: "set_percent_cb a \<noteq> None" "set_percent_cb b \<noteq> None" "led_id a = A" "led_id b = B"
    "alter_id (cfg a) = B" "alter_id (cfg b) = A" "alternate_tick (cfg a) = alternate_tick (cfg b)"
    "remain_tick (stat b) = remain_tick (stat a)" "next_tick (stat b) = next_tick (stat a)"
    "mode (cfg b) = mode (cfg a)"
    "mode (cfg a) = LED_MODE_ALTERNATE \<or> mode (cfg a) = LED_MODE_OFF"
    "\<not> (state (stat a) = LED_STATE_ON \<and> state (stat b) = LED_STATE_ON)"
    using assms(4) unfolding pair_inv_def a_def b_def by auto
  have goal: "pair_inv A B a' b' \<and>
         (percent_calls A (snd (lite_led_poll_handle ub g)) = [] \<or>
          mode (cfg a') = LED_MODE_OFF \<or>
          state (stat a') = lnot (state (stat a)) \<and> state (stat b') = lnot (state (stat a')) \<and>
          percent_calls B (snd (lite_led_poll_handle ub g)) \<noteq> [])"
  proof -
    consider (expire) "remain_tick (stat a) = Suc 0"
      | (blocked) "remain_tick (stat a) \<noteq> Suc 0" "next_tick (stat a) = LED_BLOCK_FOREVER"
      | (wait) "remain_tick (stat a) \<noteq> Suc 0" "next_tick (stat a) \<noteq> LED_BLOCK_FOREVER"
          "1 < next_tick (stat a)"
      | (dispatch) "remain_tick (stat a) \<noteq> Suc 0" "next_tick (stat a) \<le> 1"
      by (cases "next_tick (stat a) \<le> 1") auto
    then show ?thesis
    proof cases
      case expire
      have pa: "poll_body ub GA A = (a\<lparr>cfg := (cfg a)\<lparr>mode := LED_MODE_OFF\<rparr>,
                      stat := (stat a)\<lparr>remain_tick := 0, next_tick := 0\<rparr>\<rparr>, None)"
        using poll_body_expire[of GA A ub] inv expire by (simp add: GA)
      have pb: "poll_body ub GB B = (b\<lparr>cfg := (cfg b)\<lparr>mode := LED_MODE_OFF\<rparr>,
                      stat := (stat b)\<lparr>remain_tick := 0, next_tick := 0\<rparr>\<rparr>, None)"
        using poll_body_expire[of GB B ub] inv expire by (simp add: GB)
      show ?thesis
        unfolding ca a' b' pa using inv by (simp add: pair_inv_def pb)
    next
      case blocked
      have pa: "poll_body ub GA A
                  = (a\<lparr>stat := (stat a)\<lparr>remain_tick := remain_tick (stat a) - 1\<rparr>\<rparr>, None)"
        using poll_body_blocked[of GA A ub] inv blocked by (simp add: GA)
      have pb: "poll_body ub GB B
                  = (b\<lparr>stat := (stat b)\<lparr>remain_tick := remain_tick (stat b) - 1\<rparr>\<rparr>, None)"
        using poll_body_blocked[of GB B ub] inv blocked by (simp add: GB)
      show ?thesis
        unfolding ca a' b' pa using inv by (simp add: pair_inv_def pb)
    next
      case wait
      have pa: "poll_body ub GA A
                  = (a\<lparr>stat := (stat a)\<lparr>remain_tick := remain_tick (stat a) - 1,
                                       next_tick := next_tick (stat a) - 1\<rparr>\<rparr>, None)"
        using poll_body_wait[of GA A ub] inv wait by (simp add: GA)
      have pb: "poll_body ub GB B
                  = (b\<lparr>stat := (stat b)\<lparr>remain_tick := remain_tick (stat b) - 1,
                                       next_tick := next_tick (stat b) - 1\<rparr>\<rparr>, None)"
        using poll_body_wait[of GB B ub] inv wait by (simp add: GB)
      show ?thesis
        unfolding ca a' b' pa using inv by (simp add: pair_inv_def pb)
    next
      case dispatch
      define a1 where "a1 = a\<lparr>stat := (stat a)\<lparr>remain_tick := remain_tick (stat a) - 1,
                                       next_tick := 0\<rparr>\<rparr>"
      define b1 where "b1 = b\<lparr>stat := (stat b)\<lparr>remain_tick := remain_tick (stat b) - 1,
                                       next_tick := 0\<rparr>\<rparr>"
      have pa: "poll_body ub GA A
                  = (mode_handle ub GA A a1, Some (percent (stat (mode_handle ub GA A a1))))"
        using poll_body_dispatch[of GA A ub] inv dispatch by (simp add: GA a1_def Let_def)
      have pb: "poll_body ub GB B
                  = (mode_handle ub GB B b1, Some (percent (stat (mode_handle ub GB B b1))))"
        using poll_body_dispatch[of GB B ub] inv dispatch by (simp add: GB b1_def Let_def)
      from inv(11) show ?thesis
      proof
        assume alt: "mode (cfg a) = LED_MODE_ALTERNATE"
        have ma: "mode_handle ub GA A a1 =
            a1\<lparr>stat := (stat a1)\<lparr>next_tick := alternate_tick (cfg a1),
                 state := lnot (state (stat a1)),
                 percent := (if lnot (state (stat a1)) = LED_STATE_ON then LED_MAX_BRIGHTNESS
                             else LED_MIN_BRIGHTNESS)\<rparr>\<rparr>"
          using alt inv assms(1,2) by (intro mode_handle_alt_driver) (simp_all add: a1_def)
        have mb: "mode_handle ub GB B b1 =
            b1\<lparr>stat := (stat b1)\<lparr>next_tick := alternate_tick (cfg b1),
                 state := lnot (state (stat (GB ! alter_id (cfg b1)))),
                 percent := (if lnot (state (stat (GB ! alter_id (cfg b1)))) = LED_STATE_ON
                             then LED_MAX_BRIGHTNESS else LED_MIN_BRIGHTNESS)\<rparr>\<rparr>"
          using alt inv assms(1,2) by (intro mode_handle_alt_mirror) (simp_all add: b1_def)
        have ea: "a' = a1\<lparr>stat := (stat a1)\<lparr>next_tick := alternate_tick (cfg a1),
                 state := lnot (state (stat a1)),
                 percent := (if lnot (state (stat a1)) = LED_STATE_ON then LED_MAX_BRIGHTNESS
                             else LED_MIN_BRIGHTNESS)\<rparr>\<rparr>"
          unfolding a' pa ma by simp
        have peer: "GB ! alter_id (cfg b1) = a'"
          using inv(6) by (simp add: b1_def GBA)
        have eb: "b' = b1\<lparr>stat := (stat b1)\<lparr>next_tick := alternate_tick (cfg b1),
                 state := lnot (state (stat a')),
                 percent := (if lnot (state (stat a')) = LED_STATE_ON
                             then LED_MAX_BRIGHTNESS else LED_MIN_BRIGHTNESS)\<rparr>\<rparr>"
          unfolding b' pb mb peer by simp
        have sa: "state (stat a') = lnot (state (stat a))"
          by (simp add: ea a1_def)
        have sb: "state (stat b') = lnot (state (stat a'))"
          by (simp add: eb)
        have "pair_inv A B a' b'"
          unfolding pair_inv_def sb using inv alt lnot_not_both[of "state (stat a')"]
          by (simp add: ea eb a1_def b1_def)
        moreover have "percent_calls B (snd (lite_led_poll_handle ub g)) \<noteq> []"
          unfolding cb pb by simp
        ultimately show ?thesis using sa sb by blast
      next
        assume off: "mode (cfg a) = LED_MODE_OFF"
        have ma: "mode_handle ub GA A a1 =
            a1\<lparr>stat := (stat a1)\<lparr>state := LED_STATE_OFF, percent := LED_MIN_BRIGHTNESS,
                 next_tick := LED_BLOCK_FOREVER\<rparr>\<rparr>"
          using off by (intro mode_handle_off) (simp add: a1_def)
        have mb: "mode_handle ub GB B b1 =
            b1\<lparr>stat := (stat b1)\<lparr>state := LED_STATE_OFF, percent := LED_MIN_BRIGHTNESS,
                 next_tick := LED_BLOCK_FOREVER\<rparr>\<rparr>"
          using off inv by (intro mode_handle_off) (simp add: b1_def)
        have "pair_inv A B a' b'"
          unfolding pair_inv_def a' b' pa pb ma mb using inv off
          by (simp add: a1_def b1_def)
        moreover have "mode (cfg a') = LED_MODE_OFF"
          unfolding a' pa ma using off by (simp add: a1_def)
        ultimately show ?thesis by blast
      qed
    qed
  qed
  then show ?thesis
    unfolding a'_def b'_def a_def by simp
qed

lemma tick_alt_driver:
  assumes "i < LED_NUM" "length g = LED_NUM" "set_percent_cb (g ! i) \<noteq> None"
    and "remain_tick (stat (g ! i)) \<noteq> Suc 0" "next_tick (stat (g ! i)) \<le> 1"
    and "mode (cfg (g ! i)) = LED_MODE_ALTERNATE" "alter_id (cfg (g ! i)) < LED_NUM"
    and "led_id (g ! i) < alter_id (cfg (g ! i))"
  shows "fst (lite_led_poll_handle ub g) ! i
           = (g ! i)\<lparr>stat := (stat (g ! i))\<lparr>remain_tick := remain_tick (stat (g ! i)) - 1,
                 next_tick := alternate_tick (cfg (g ! i)),
                 state := lnot (state (stat (g ! i))),
                 percent := (if lnot (state (stat (g ! i))) = LED_STATE_ON
                             then LED_MAX_BRIGHTNESS else LED_MIN_BRIGHTNESS)\<rparr>\<rparr>"
    and "percent_calls i (snd (lite_led_poll_handle ub g))
           = [if lnot (state (stat (g ! i))) = LED_STATE_ON
              then LED_MAX_BRIGHTNESS else LED_MIN_BRIGHTNESS]"
proof -
  let ?G = "before ub i g"
  let ?l = "(g ! i)\<lparr>stat := (stat (g ! i))\<lparr>remain_tick := remain_tick (stat (g ! i)) - 1,
                                       next_tick := 0\<rparr>\<rparr>"
  have G: "?G ! i = g ! i" by (simp add: before_nth_ge)
  have pb: "poll_body ub ?G i
              = (mode_handle ub ?G i ?l, Some (percent (stat (mode_handle ub ?G i ?l))))"
    using poll_body_dispatch[of ?G i ub] assms(3,4,5) by (simp add: G Let_def)
  have mh: "mode_handle ub ?G i ?l =
     ?l\<lparr>stat := (stat ?l)\<lparr>next_tick := alternate_tick (cfg ?l),
                 state := lnot (state (stat ?l)),
                 percent := (if lnot (state (stat ?l)) = LED_STATE_ON then LED_MAX_BRIGHTNESS
                             else LED_MIN_BRIGHTNESS)\<rparr>\<rparr>"
    using assms(6,7,8) by (intro mode_handle_alt_driver) simp_all
  show "fst (lite_led_poll_handle ub g) ! i
           = (g ! i)\<lparr>stat := (stat (g ! i))\<lparr>remain_tick := remain_tick (stat (g ! i)) - 1,
                 next_tick := alternate_tick (cfg (g ! i)),
                 state := lnot (state (stat (g ! i))),
                 percent := (if lnot (state (stat (g ! i))) = LED_STATE_ON
                             then LED_MAX_BRIGHTNESS else LED_MIN_BRIGHTNESS)\<rparr>\<rparr>"
    unfolding poll_nth[OF assms(1,2)] pb mh by simp
  show "percent_calls i (snd (lite_led_poll_handle ub g))
           = [if lnot (state (stat (g ! i))) = LED_STATE_ON
              then LED_MAX_BRIGHTNESS else LED_MIN_BRIGHTNESS]"
    unfolding percent_calls_poll[OF assms(1)] pb mh by simp
qed

lemma tick_alt_mirror:
  assumes "i < LED_NUM" "length g = LED_NUM" "set_percent_cb (g ! i) \<noteq> None"
    and "remain_tick (stat (g ! i)) \<noteq> Suc 0" "next_tick (stat (g ! i)) \<le> 1"
    and "mode (cfg (g ! i)) = LED_MODE_ALTERNATE" "alter_id (cfg (g ! i)) < i"
    and "\<not> led_id (g ! i) < alter_id (cfg (g ! i))"
  shows "fst (lite_led_poll_handle ub g) ! i
           = (g ! i)\<lparr>stat := (stat (g ! i))\<lparr>remain_tick := remain_tick (stat (g ! i)) - 1,
                 next_tick := alternate_tick (cfg (g ! i)),
                 state := lnot (state (stat (fst (lite_led_poll_handle ub g) ! alter_id (cfg (g ! i))))),
                 percent := (if lnot (state (stat (fst (lite_led_poll_handle ub g)
                                   ! alter_id (cfg (g ! i))))) = LED_STATE_ON
                             then LED_MAX_BRIGHTNESS else LED_MIN_BRIGHTNESS)\<rparr>\<rparr>"
proof -
  let ?G = "before ub i g"
  let ?l = "(g ! i)\<lparr>stat := (stat (g ! i))\<lparr>remain_tick := remain_tick (stat (g ! i)) - 1,
                                       next_tick := 0\<rparr>\<rparr>"
  have G: "?G ! i = g ! i" by (simp add: before_nth_ge)
  have peer: "?G ! alter_id (cfg (g ! i)) = fst (lite_led_poll_handle ub g) ! alter_id (cfg (g ! i))"
    using assms(1,7) by (intro before_nth_lt) simp_all
  have pb: "poll_body ub ?G i
              = (mode_handle ub ?G i ?l, Some (percent (stat (mode_handle ub ?G i ?l))))"
    using poll_body_dispatch[of ?G i ub] assms(3,4,5) by (simp add: G Let_def)
  have mh: "mode_handle ub ?G i ?l =
     ?l\<lparr>stat := (stat ?l)\<lparr>next_tick := alternate_tick (cfg ?l),
                 state := lnot (state (stat (?G ! alter_id (cfg ?l)))),
                 percent := (if lnot (state (stat (?G ! alter_id (cfg ?l)))) = LED_STATE_ON
                             then LED_MAX_BRIGHTNESS else LED_MIN_BRIGHTNESS)\<rparr>\<rparr>"
    using assms(1,6,7,8) by (intro mode_handle_alt_mirror) simp_all
  show ?thesis
    unfolding poll_nth[OF assms(1,2)] pb mh using peer by simp
qed

lemma write_other: "j \<noteq> i \<Longrightarrow> snd (lite_led_write i c g) ! j = g ! j"
  by (simp add: lite_led_write_def split_beta split: option.split)

lemma write_alt_nth:
  assumes "i < LED_NUM" "length g = LED_NUM" "cfg_mode c = LED_MODE_ALTERNATE"
  shows "snd (lite_led_write i (Some c) g) ! i = write_convert c (g ! i)"
  using assms by (simp add: write_nth write_switch_def led_consts)

lemma pair_written:
  assumes "A < B" "B < LED_NUM" "length g = LED_NUM"
    and "cfg_mode cA = LED_MODE_ALTERNATE" "cfg_mode cB = LED_MODE_ALTERNATE"
    and "g0 = snd (lite_led_write B (Some cB) (snd (lite_led_write A (Some cA) g)))"
  shows "g0 ! A = write_convert cA (g ! A)" and "g0 ! B = write_convert cB (g ! B)"
    and "length g0 = LED_NUM"
proof -
  have AN: "A < LED_NUM" and ne: "A \<noteq> B" using assms(1,2) by simp_all
  have l1: "length (snd (lite_led_write A (Some cA) g)) = LED_NUM"
    using assms(3) by (simp add: length_write)
  show "g0 ! A = write_convert cA (g ! A)"
    unfolding assms(6) using ne AN assms(3,4) by (simp add: write_other write_alt_nth)
  show "g0 ! B = write_convert cB (g ! B)"
    unfolding assms(6) using ne assms(2,5) l1 by (simp add: write_alt_nth write_other)
  show "length g0 = LED_NUM"
    unfolding assms(6) using assms(3) by (simp add: length_write)
qed

lemma pair_ticks:
  assumes "A < B" "B < LED_NUM" "length g = LED_NUM" "pair_inv A B (g ! A) (g ! B)"
  shows "pair_inv A B (ticks ub n g ! A) (ticks ub n g ! B)"
proof (induction n)
  case 0
  then show ?case using assms(4) by simp
next
  case (Suc n)
  have "length (ticks ub n g) = LED_NUM" using assms(3) by (simp add: length_ticks)
  from pair_step[OF assms(1,2) this Suc, of ub] show ?case by simp
qed

lemma slot01_facts:
  "(0::nat) < 1" "1 < LED_NUM" "length slot01 = LED_NUM"
  "set_percent_cb (slot01 ! 0) \<noteq> None" "set_percent_cb (slot01 ! 1) \<noteq> None"
  "led_id (slot01 ! 0) = 0" "led_id (slot01 ! 1) = 1"
  by (simp_all add: slot01_def slot1_def lite_led_init_def g_led_list_init_def led_consts)

lemma alt_cfg_facts:
  "cfg_mode (alt_cfg p d) = LED_MODE_ALTERNATE" "cfg_alter_id (alt_cfg p d) = p"
  "alternate_ms (alt_cfg p d) = 100" "duration_ms (alt_cfg p d) = d"
  by (simp_all add: alt_cfg_def)

lemma even_demo_tick1:
  "percent_calls 0 (calls_at ub 1 even_demo) = [100] \<and>
   mode (cfg (ticks ub 1 even_demo ! 0)) = LED_MODE_ALTERNATE \<and>
   state (stat (even_demo ! 0)) = LED_STATE_OFF"
proof -
  note w = pair_written[OF slot01_facts(1,2,3) alt_cfg_facts(1) alt_cfg_facts(1) even_demo_def]
  have z: "(0::nat) < LED_NUM" using slot01_facts(2) by simp
  have f: "set_percent_cb (even_demo ! 0) \<noteq> None" "remain_tick (stat (even_demo ! 0)) \<noteq> Suc 0"
    "next_tick (stat (even_demo ! 0)) \<le> 1" "mode (cfg (even_demo ! 0)) = LED_MODE_ALTERNATE"
    "alter_id (cfg (even_demo ! 0)) < LED_NUM" "led_id (even_demo ! 0) < alter_id (cfg (even_demo ! 0))"
    "state (stat (even_demo ! 0)) = LED_STATE_OFF"
    unfolding w(1) using slot01_facts
    by (simp_all add: write_convert_def alt_cfg_def Let_def zero_stat_def LED_POLL_PERIOD_MS_def)
  from tick_alt_driver[OF z w(3) f(1-6), of ub] f(4,7) show ?thesis
    by (simp add: calls_at_def LED_MAX_BRIGHTNESS_def)
qed

text \<open>
  C6, as the handler behaves. Two initialised records \<open>A < B\<close> are configured in
  ALTERNATE mode with each other as peer, the same alternate period and the same
  lifetime, one Configure call right after the other. After any number of ticks the two
  are not both in the on state. Whenever a tick calls the brightness callback of \<open>A\<close>
  and leaves \<open>A\<close> in ALTERNATE mode (a scheduled dispatch), it has toggled the state of
  \<open>A\<close>, has set the state of \<open>B\<close> to the negation of the new state of \<open>A\<close> and has
  called the brightness callback of \<open>B\<close> too.
\<close>

theorem alternate_pair:
  assumes "A < B" "B < LED_NUM" "length g = LED_NUM"
    and "set_percent_cb (g ! A) \<noteq> None" "set_percent_cb (g ! B) \<noteq> None"
    and "led_id (g ! A) = A" "led_id (g ! B) = B"
    and "cfg_mode cA = LED_MODE_ALTERNATE" "cfg_alter_id cA = B"
    and "cfg_mode cB = LED_MODE_ALTERNATE" "cfg_alter_id cB = A"
    and "alternate_ms cA = alternate_ms cB" "duration_ms cA = duration_ms cB"
    and "g0 = snd (lite_led_write B (Some cB) (snd (lite_led_write A (Some cA) g)))"
  shows "\<not> (state (stat (ticks ub n g0 ! A)) = LED_STATE_ON \<and>
            state (stat (ticks ub n g0 ! B)) = LED_STATE_ON) \<and>
         (percent_calls A (calls_at ub (Suc n) g0) \<noteq> [] \<and>
          mode (cfg (ticks ub (Suc n) g0 ! A)) = LED_MODE_ALTERNATE \<longrightarrow>
            state (stat (ticks ub (Suc n) g0 ! A)) = lnot (state (stat (ticks ub n g0 ! A))) \<and>
            state (stat (ticks ub (Suc n) g0 ! B)) = lnot (state (stat (ticks ub (Suc n) g0 ! A))) \<and>
            percent_calls B (calls_at ub (Suc n) g0) \<noteq> [])"
proof -
  note w = pair_written[OF assms(1,2,3,8,10,14)]
  have inv0: "pair_inv A B (g0 ! A) (g0 ! B)"
    unfolding w(1,2) pair_inv_def using assms(4-13)
    by (simp add: write_convert_def Let_def zero_stat_def)
  have inv: "pair_inv A B (ticks ub n g0 ! A) (ticks ub n g0 ! B)" for n
    using assms(1,2) w(3) inv0 by (rule pair_ticks)
  have len: "length (ticks ub n g0) = LED_NUM"
    using w(3) by (simp add: length_ticks)
  have off: "LED_MODE_OFF \<noteq> LED_MODE_ALTERNATE"
    by (simp add: led_consts)
  from pair_step[OF assms(1,2) len inv, of ub] inv[of n] off show ?thesis
    unfolding pair_inv_def calls_at_def by auto
qed

theorem alternate_pair_witness:
  "(0::nat) < 1 \<and> 1 < LED_NUM \<and> length slot01 = LED_NUM \<and>
   set_percent_cb (slot01 ! 0) \<noteq> None \<and> set_percent_cb (slot01 ! 1) \<noteq> None \<and>
   led_id (slot01 ! 0) = 0 \<and> led_id (slot01 ! 1) = 1 \<and>
   cfg_mode (alt_cfg 1 0) = LED_MODE_ALTERNATE \<and> cfg_alter_id (alt_cfg 1 0) = 1 \<and>
   cfg_mode (alt_cfg 0 0) = LED_MODE_ALTERNATE \<and> cfg_alter_id (alt_cfg 0 0) = 0 \<and>
   alternate_ms (alt_cfg 1 0) = alternate_ms (alt_cfg 0 0) \<and>
   duration_ms (alt_cfg 1 0) = duration_ms (alt_cfg 0 0) \<and>
   percent_calls 0 (calls_at ub0 1 even_demo) \<noteq> [] \<and>
   mode (cfg (ticks ub0 1 even_demo ! 0)) = LED_MODE_ALTERNATE \<and>
   state (stat (ticks ub0 1 even_demo ! 0)) = LED_STATE_ON \<and>
   state (stat (ticks ub0 1 even_demo ! 1)) = LED_STATE_OFF \<and>
   percent_calls 1 (calls_at ub0 1 even_demo) \<noteq> [] \<and>
   \<not> (state (stat (ticks ub0 11 even_demo ! 0)) = LED_STATE_ON \<and>
      state (stat (ticks ub0 11 even_demo ! 1)) = LED_STATE_ON)"
proof -
  have ms: "alternate_ms (alt_cfg 1 0) = alternate_ms (alt_cfg 0 0)"
    and ds: "duration_ms (alt_cfg 1 0) = duration_ms (alt_cfg 0 0)"
    by (simp_all add: alt_cfg_def)
  note pair = alternate_pair [OF slot01_facts alt_cfg_facts(1,2) alt_cfg_facts(1,2) ms ds
      even_demo_def, of ub0]
  have t1: "state (stat (ticks ub0 (Suc 0) even_demo ! 0)) = LED_STATE_ON \<and>
            state (stat (ticks ub0 (Suc 0) even_demo ! 1)) = LED_STATE_OFF \<and>
            percent_calls 1 (calls_at ub0 (Suc 0) even_demo) \<noteq> []"
    using pair[of 0] even_demo_tick1[of ub0] by simp
  have t11: "\<not> (state (stat (ticks ub0 11 even_demo ! 0)) = LED_STATE_ON \<and>
      state (stat (ticks ub0 11 even_demo ! 1)) = LED_STATE_ON)"
    using pair[of 11] by blast
  show ?thesis
    using slot01_facts alt_cfg_facts(1,2)[of 1 0] alt_cfg_facts(1,2)[of 0 0] ms ds t1 t11
      even_demo_tick1[of ub0]
    by simp
qed


text \<open>
  C6 as stated puts no condition on the lifetimes. With a period of 100 ms, an indefinite
  lifetime for slot 0 and a lifetime of 300 ms for slot 1, tick 3 toggles slot 0 on and
  ends the lifetime of slot 1, which leaves the state and brightness of slot 1 as tick 2
  set them: after tick 3 both are on, at brightness 100.
\<close>

theorem alternate_uneven_lifetime_counterexample:
  "mode (cfg (uneven_demo ! 0)) = LED_MODE_ALTERNATE \<and> alter_id (cfg (uneven_demo ! 0)) = 1 \<and>
   mode (cfg (uneven_demo ! 1)) = LED_MODE_ALTERNATE \<and> alter_id (cfg (uneven_demo ! 1)) = 0 \<and>
   alternate_tick (cfg (uneven_demo ! 0)) = alternate_tick (cfg (uneven_demo ! 1)) \<and>
   state (stat (ticks ub0 3 uneven_demo ! 0)) = LED_STATE_ON \<and>
   state (stat (ticks ub0 3 uneven_demo ! 1)) = LED_STATE_ON \<and>
   percent (stat (ticks ub0 3 uneven_demo ! 0)) = 100 \<and>
   percent (stat (ticks ub0 3 uneven_demo ! 1)) = 100"
proof -
  note w = pair_written[OF slot01_facts(1,2,3) alt_cfg_facts(1) alt_cfg_facts(1) uneven_demo_def]
  have z: "(0::nat) < LED_NUM" and o: "Suc 0 < LED_NUM"
    using slot01_facts(2) by simp_all
  define a0 where "a0 = uneven_demo ! 0"
  define b0 where "b0 = uneven_demo ! 1"
  have b0': "uneven_demo ! Suc 0 = b0" by (simp add: b0_def)
  have a0: "set_percent_cb a0 \<noteq> None" "led_id a0 = 0" "mode (cfg a0) = LED_MODE_ALTERNATE"
    "alter_id (cfg a0) = 1" "alternate_tick (cfg a0) = 1" "stat a0 = zero_stat"
    unfolding a0_def w(1) using slot01_facts
    by (simp_all add: write_convert_def alt_cfg_def Let_def LED_POLL_PERIOD_MS_def zero_stat_def)
  have b0: "set_percent_cb b0 \<noteq> None" "led_id b0 = 1" "mode (cfg b0) = LED_MODE_ALTERNATE"
    "alter_id (cfg b0) = 0" "alternate_tick (cfg b0) = 1" "stat b0 = zero_stat\<lparr>remain_tick := 3\<rparr>"
    unfolding b0_def w(2) using slot01_facts
    by (simp_all add: write_convert_def alt_cfg_def Let_def LED_POLL_PERIOD_MS_def zero_stat_def)
  define g1 where "g1 = ticks ub0 1 uneven_demo"
  define g2 where "g2 = ticks ub0 2 uneven_demo"
  define g3 where "g3 = ticks ub0 3 uneven_demo"
  have g1: "g1 = fst (lite_led_poll_handle ub0 uneven_demo)"
    and g2: "g2 = fst (lite_led_poll_handle ub0 g1)"
    and g3: "g3 = fst (lite_led_poll_handle ub0 g2)"
    by (simp_all add: g1_def g2_def g3_def ticks_numeral)
  have l1: "length g1 = LED_NUM" and l2: "length g2 = LED_NUM"
    unfolding g1_def g2_def by (simp_all only: length_ticks w(3))
  \<comment> \<open>tick 1\<close>
  have a1: "g1 ! 0 = a0\<lparr>stat := zero_stat\<lparr>next_tick := 1, state := LED_STATE_ON, percent := 100\<rparr>\<rparr>"
    unfolding g1 using a0 slot01_facts(2)
    by (subst tick_alt_driver(1)[OF z w(3)])
       (simp_all add: a0_def[symmetric] zero_stat_def led_consts)
  have b1: "g1 ! Suc 0 = b0\<lparr>stat := zero_stat\<lparr>remain_tick := 2, next_tick := 1\<rparr>\<rparr>"
    unfolding g1 using b0 a1[unfolded g1]
    by (subst tick_alt_mirror[OF o w(3)])
       (simp_all add: b0' zero_stat_def led_consts)
  \<comment> \<open>tick 2\<close>
  have a2: "g2 ! 0 = a0\<lparr>stat := zero_stat\<lparr>next_tick := 1\<rparr>\<rparr>"
    unfolding g2 using a0 slot01_facts(2)
    by (subst tick_alt_driver(1)[OF z l1]) (simp_all add: a1 zero_stat_def led_consts)
  have b2: "g2 ! Suc 0 = b0\<lparr>stat := zero_stat\<lparr>remain_tick := 1, next_tick := 1,
                state := LED_STATE_ON, percent := 100\<rparr>\<rparr>"
    unfolding g2 using b0 a2[unfolded g2]
    by (subst tick_alt_mirror[OF o l1]) (simp_all add: b1 zero_stat_def led_consts)
  \<comment> \<open>tick 3: the driver toggles on, the lifetime of the mirror ends\<close>
  have a3: "g3 ! 0 = a0\<lparr>stat := zero_stat\<lparr>next_tick := 1, state := LED_STATE_ON, percent := 100\<rparr>\<rparr>"
    unfolding g3 using a0 slot01_facts(2)
    by (subst tick_alt_driver(1)[OF z l2]) (simp_all add: a2 zero_stat_def led_consts)
  have b3: "g3 ! Suc 0 = b0\<lparr>cfg := (cfg b0)\<lparr>mode := LED_MODE_OFF\<rparr>,
                stat := zero_stat\<lparr>state := LED_STATE_ON, percent := 100\<rparr>\<rparr>"
    unfolding g3 using b0
    by (subst tick_expire(1)[OF o l2]) (simp_all add: b2 zero_stat_def)
  show ?thesis
    using a0(3,4,5) b0(3,4,5) a3 b3
    by (simp add: a0_def[symmetric] b0' g3_def[symmetric] zero_stat_def)
qed

end
